theory Spec2Isabelle
  imports Main "HOL-Library.Word" "HOL-Library.AList"
begin

section \<open>Values, errors and outcomes\<close>

text \<open>
  The JSON values the client builds with \<open>h{...}\<close> literals (\<open>map[string]interface{}\<close>).
  A nil map and a nil interface are \<open>JNull\<close>. An object is an association list; \<open>encoding/json\<close>
  writes the keys of a Go map in sorted order, and the literals below are listed in that order.
\<close>

datatype json =
    JNull
  | JBool bool
  | JInt int
  | JString string
  | JArray "json list"
  | JObject "(string \<times> json) list"

type_synonym h = "(string \<times> json) list"

text \<open>\<open>json.RawMessage\<close> is a byte slice; \<open>None\<close> is the nil slice.\<close>

type_synonym RawMessage = "string option"

text \<open>
  Go error values. \<open>errors_New\<close> and \<open>fmt_Errorf\<close> carry the message the source builds;
  \<open>lib_error\<close> is an error returned by a library call (websocket, os, encoding/json).
\<close>

datatype error = errors_New string | fmt_Errorf string | lib_error string

datatype panic = nil_dereference | index_out_of_range

text \<open>
  Every operation either returns, panics, or never returns (a blocked channel receive, a
  blocked read, a loop that does not end): \<open>None\<close> is "never returns".
\<close>

type_synonym 'a outcome = "(panic + 'a) option"

abbreviation Return :: "'a \<Rightarrow> 'a outcome" where
  "Return x \<equiv> Some (Inr x)"

abbreviation Panic :: "panic \<Rightarrow> 'a outcome" where
  "Panic p \<equiv> Some (Inl p)"

abbreviation Blocked :: "'a outcome" where
  "Blocked \<equiv> None"

definition and_then :: "'a outcome \<Rightarrow> ('a \<Rightarrow> 'b outcome) \<Rightarrow> 'b outcome" where
  "and_then m f = (case m of None \<Rightarrow> None | Some (Inl p) \<Rightarrow> Some (Inl p) | Some (Inr x) \<Rightarrow> f x)"

text \<open>\<open>%d\<close> of \<open>fmt\<close>: an integer in decimal.\<close>

fun digits :: "nat \<Rightarrow> string" where
  "digits n = (if n < 10 then [char_of (48 + n)] else digits (n div 10) @ [char_of (48 + n mod 10)])"

definition decimal :: "int \<Rightarrow> string" where
  "decimal i = (if i < 0 then CHR ''-'' # digits (nat (- i)) else digits (nat i))"

section \<open>The data model of chrome.go\<close>

record result =
  Value :: RawMessage
  Err :: "error option"

type_synonym bindingFunc = "RawMessage list \<Rightarrow> json \<times> error option"

record msg =
  msg_ID :: int
  msg_Result :: RawMessage
  msg_Error :: RawMessage
  msg_Method :: string
  msg_Params :: RawMessage

text \<open>The anonymous struct \<open>readLoop\<close> decodes \<open>Target.receivedMessageFromTarget\<close> parameters into.\<close>

record received =
  SessionID :: string
  received_Message :: string

record template_Params =
  Name :: string
  Payload :: string
  executionContextId :: int
  Args :: "(string \<times> json) list"

record template_Error =
  Message :: string

record targetMessageTemplate =
  ID :: int
  Method :: string
  Params :: template_Params
  Error :: template_Error
  template_Result :: RawMessage

record RemoteObject =
  Type :: string
  Subtype :: string
  Description :: string
  object_Value :: RawMessage
  ObjectID :: string

record exception_inner =
  exception_Value :: RawMessage

record exceptionDetails =
  inner_Exception :: exception_inner

record typed_Result =
  Result_Result :: RemoteObject
  Exception :: exceptionDetails

text \<open>\<open>targetMessage\<close> embeds the template and adds the typed \<open>Result\<close> that shadows the raw one.\<close>

record targetMessage = targetMessageTemplate +
  Result :: typed_Result

record payload =
  payload_Name :: string
  Seq :: int
  payload_Args :: "RawMessage list"

text \<open>
  \<open>exec.Cmd\<close>, as far as the client reads it: \<open>Process\<close> is nil until \<open>Start\<close> succeeds,
  \<open>ProcessState\<close> is nil until \<open>Wait\<close> has returned and then tells whether the process exited.
  The type \<open>'p\<close> is the operating system's view of the process.
\<close>

record ProcessState =
  Exited :: bool

record 'p exec_Cmd =
  Process :: "'p option"
  ProcessState :: "ProcessState option"

text \<open>A \<open>chan result\<close> is named by the number \<open>make\<close> gave it.\<close>

type_synonym chan = nat

text \<open>
  Two statements of \<open>Send\<close> whose order matters, as events: the assignment into the table and
  the write to the websocket (whether or not it succeeds).
\<close>

datatype event = table_insert int chan | transport_write json

text \<open>
  The goroutines the client starts with \<open>go\<close>. They run concurrently with the caller; the model
  records that they were started and with which captured values.
\<close>

datatype goroutine =
    go_readLoop
  | go_discard_stderr
  | go_binding bindingFunc payload int

text \<open>
  The \<open>Chrome\<close> struct. The type \<open>'c\<close> is the state of the websocket connection behind
  \<open>ws\<close> (\<open>None\<close> is the nil pointer). The mutex is not modelled: every operation below runs
  as one step. The seven fields after \<open>bindings\<close> are not fields of the Go struct; they are the
  effects on the rest of the process, kept with it so that one state value is threaded through:
  the lines written with \<open>log.Println\<close>, the text written with \<open>fmt.Printf\<close>, the values sent on
  result channels, the goroutines started, the number of the next channel \<open>make\<close> returns, the
  table assignments and websocket writes in the order they were made, and the channels a caller
  of \<open>Send\<close> receives from (the result channels are unbuffered: a send on one completes only if
  a caller receives from it).
\<close>

record ('c, 'p) Chrome =
  Cmd :: "'p exec_Cmd"
  ws :: "'c option"
  id_counter :: "32 word"
  target :: string
  session :: string
  window :: int
  pending :: "int \<rightharpoonup> chan"
  bindings :: "string \<rightharpoonup> bindingFunc"
  logged :: "string list"
  printed :: "string list"
  delivered :: "(chan \<times> result) list"
  started :: "goroutine list"
  next_chan :: chan
  events :: "event list"
  receiving :: "chan set"

section \<open>The environment\<close>

record TargetInfo =
  TargetInfo_Type :: string
  TargetInfo_ID :: string

record Bounds =
  Left :: int
  Top :: int
  Width :: int
  Height :: int
  WindowState :: string

record windowTargetMessage =
  WindowID :: int
  message_Bounds :: Bounds

record navigationHistoryEntry =
  entry_ID :: int

text \<open>
  \<open>Entries\<close> is a slice of pointers: \<open>None\<close> is a nil entry. \<open>CurrentIndex\<close> is a Go \<open>int\<close>,
  64 bits wide on the platforms the browser runs on, and \<open>goDelta\<close> adds to it.
\<close>

record navigationHistory =
  CurrentIndex :: "64 word"
  Entries :: "navigationHistoryEntry option list"

text \<open>The zero values of the structs, as \<open>var m T\<close> and \<open>T{}\<close> give them.\<close>

definition zero_result :: result where
  "zero_result = \<lparr>Value = None, Err = None\<rparr>"

definition zero_template :: targetMessageTemplate where
  "zero_template =
     \<lparr>ID = 0, Method = [], Params = \<lparr>Name = [], Payload = [], executionContextId = 0, Args = []\<rparr>,
      Error = \<lparr>Message = []\<rparr>, template_Result = None\<rparr>"

definition zero_typed_Result :: typed_Result where
  "zero_typed_Result =
     \<lparr>Result_Result = \<lparr>Type = [], Subtype = [], Description = [], object_Value = None, ObjectID = []\<rparr>,
      Exception = \<lparr>inner_Exception = \<lparr>exception_Value = None\<rparr>\<rparr>\<rparr>"

definition zero_targetMessage :: targetMessage where
  "zero_targetMessage =
     \<lparr>ID = 0, Method = [], Params = \<lparr>Name = [], Payload = [], executionContextId = 0, Args = []\<rparr>,
      Error = \<lparr>Message = []\<rparr>, template_Result = None, Result = zero_typed_Result\<rparr>"

definition zero_Bounds :: Bounds where
  "zero_Bounds = \<lparr>Left = 0, Top = 0, Width = 0, Height = 0, WindowState = []\<rparr>"

definition zero_windowTargetMessage :: windowTargetMessage where
  "zero_windowTargetMessage = \<lparr>WindowID = 0, message_Bounds = zero_Bounds\<rparr>"

text \<open>
  The inner message as the JSON object it is, as far as \<open>targetMessage\<close> reads it: each member
  may be missing (\<open>None\<close>). The exception details stand for the member \<open>exceptionDetails\<close> of
  the result; their value is the member \<open>value\<close> of their \<open>exception\<close>, missing if either is.
\<close>

record inner_error =
  message_member :: "string option"

record inner_details =
  exception_value_member :: RawMessage

record inner_result =
  result_result_member :: "RemoteObject option"
  exceptionDetails_member :: "inner_details option"

record inner_message =
  id_member :: "int option"
  method_member :: "string option"
  params_member :: "template_Params option"
  error_member :: "inner_error option"
  result_member :: "inner_result option"

text \<open>
  What \<open>json.Unmarshal\<close> stores in a \<open>targetMessage\<close> for such an object: a member that is
  missing leaves its field at the zero value. The raw \<open>Result\<close> of the embedded template has the
  same key as the typed \<open>Result\<close> that hides it, and stays nil.
\<close>

definition fill_targetMessage :: "inner_message \<Rightarrow> targetMessage" where
  "fill_targetMessage w =
     \<lparr>ID = (case id_member w of None \<Rightarrow> 0 | Some i \<Rightarrow> i),
      Method = (case method_member w of None \<Rightarrow> [] | Some s \<Rightarrow> s),
      Params = (case params_member w of
                  None \<Rightarrow> \<lparr>Name = [], Payload = [], executionContextId = 0, Args = []\<rparr>
                | Some p \<Rightarrow> p),
      Error = \<lparr>Message = (case error_member w of
                                None \<Rightarrow> []
                              | Some e \<Rightarrow> (case message_member e of None \<Rightarrow> [] | Some s \<Rightarrow> s))\<rparr>,
      template_Result = None,
      Result = (case result_member w of
                  None \<Rightarrow> zero_typed_Result
                | Some r \<Rightarrow>
                    \<lparr>Result_Result = (case result_result_member r of
                                         None \<Rightarrow> Result_Result zero_typed_Result
                                       | Some obj \<Rightarrow> obj),
                     Exception = \<lparr>inner_Exception = \<lparr>exception_Value =
                                     (case exceptionDetails_member r of
                                        None \<Rightarrow> None
                                      | Some d \<Rightarrow> exception_value_member d)\<rparr>\<rparr>\<rparr>)\<rparr>"

text \<open>Whether the result of the message has the member \<open>exceptionDetails\<close>.\<close>

definition has_exceptionDetails :: "inner_message \<Rightarrow> bool" where
  "has_exceptionDetails w =
     (case result_member w of None \<Rightarrow> False | Some r \<Rightarrow> exceptionDetails_member r \<noteq> None)"

text \<open>What the child process writes on its standard error, as \<open>bufio.Reader.ReadString\<close> sees it.\<close>

datatype pipe = Line string pipe | ReadError error | Silent

text \<open>
  The library calls of chrome.go are parameters of the model: the process (\<open>os/exec\<close>), the
  regular expression, the websocket (\<open>golang.org/x/net/websocket\<close>), \<open>encoding/json\<close>, and the
  value a blocked \<open>Send\<close> receives on its channel, together with what the other goroutines
  did to the struct meanwhile.
  \<^item> \<open>Unmarshal_*\<close> is \<open>json.Unmarshal\<close> at the Go type named; where the source ignores its
    error it returns the struct as far as it was filled.
  \<^item> \<open>FindStringSubmatch\<close> returns the whole match and the one group of the pattern.
  \<^item> \<open>Cmd_Wait\<close> and \<open>JSON_Receive\<close> may block for ever (\<open>None\<close>).
  \<^item> \<open>range_order\<close> is the order in which \<open>range\<close> visits a map literal.
\<close>

record ('c, 'p) env =
  StderrPipe :: "string \<Rightarrow> string list \<Rightarrow> error option"
  Start :: "string \<Rightarrow> string list \<Rightarrow> error + ('p \<times> pipe)"
  Process_Kill :: "'p \<Rightarrow> error option \<times> 'p"
  Cmd_Wait :: "'p \<Rightarrow> (ProcessState \<times> 'p) option"
  FindStringSubmatch :: "string \<Rightarrow> (string \<times> string) option"
  Dial :: "string \<Rightarrow> error + 'c"
  JSON_Send :: "'c \<Rightarrow> json \<Rightarrow> error option \<times> 'c"
  JSON_Receive :: "'c \<Rightarrow> ((error + msg) \<times> 'c) option"
  ws_Close :: "'c \<Rightarrow> error option \<times> 'c"
  json_Marshal :: "json \<Rightarrow> error + string"
  Unmarshal_received :: "RawMessage \<Rightarrow> received"
  Unmarshal_targetMessage :: "string \<Rightarrow> targetMessage"
  Unmarshal_template :: "string \<Rightarrow> targetMessageTemplate"
  Unmarshal_payload :: "string \<Rightarrow> payload"
  Unmarshal_targetId :: "RawMessage \<Rightarrow> string"
  Unmarshal_TargetInfo :: "RawMessage \<Rightarrow> error + TargetInfo"
  Unmarshal_sessionId :: "RawMessage \<Rightarrow> error + string"
  Unmarshal_windowTargetMessage :: "RawMessage \<Rightarrow> windowTargetMessage \<times> error option"
  Unmarshal_navigationHistory :: "RawMessage \<Rightarrow> error + navigationHistory"
  receive_result :: "chan \<Rightarrow> ('c, 'p) Chrome \<Rightarrow> (result \<times> ('c, 'p) Chrome) option"
  range_order :: "(string \<times> json) list \<Rightarrow> (string \<times> json) list"

section \<open>Teardown\<close>

text \<open>
  \<open>Kill\<close>: close the websocket if there is one and return its error if it has one; then, unless
  \<open>ProcessState\<close> says the process exited, kill the process and return what that returns.
\<close>

definition Kill :: "('c, 'p) env \<Rightarrow> ('c, 'p) Chrome \<Rightarrow> (error option \<times> ('c, 'p) Chrome) outcome" where
  "Kill E c =
     (let (closed, c1) =
        (case ws c of
           None \<Rightarrow> (None, c)
         | Some w \<Rightarrow> (let (err, w') = ws_Close E w in (err, c\<lparr>ws := Some w'\<rparr>)))
      in case closed of
           Some err \<Rightarrow> Return (Some err, c1)
         | None \<Rightarrow>
             if (case ProcessState (Cmd c1) of None \<Rightarrow> True | Some state \<Rightarrow> \<not> Exited state)
             then (case Process (Cmd c1) of
                     None \<Rightarrow> Panic nil_dereference
                   | Some p \<Rightarrow>
                       (let (err, p') = Process_Kill E p
                        in Return (err, c1\<lparr>Cmd := (Cmd c1)\<lparr>Process := Some p'\<rparr>\<rparr>)))
             else Return (None, c1))"

section \<open>The request correlator\<close>

text \<open>
  \<open>Send\<close>, in the order of the source: take the next id; marshal the inner command (an error
  returns before anything is registered); make a channel and register it under the id; write the
  \<open>Target.sendMessageToTarget\<close> frame (an error returns at once); receive from the channel.
  \<open>Send_start\<close> is \<open>Send\<close> up to the receive: it ends with the error \<open>Send\<close> returns, or with
  the channel the caller goes on to receive from.
\<close>

definition command :: "int \<Rightarrow> string \<Rightarrow> json \<Rightarrow> json" where
  "command ident method params = JObject [(''id'', JInt ident), (''method'', JString method), (''params'', params)]"

definition sendMessageToTarget :: "int \<Rightarrow> string \<Rightarrow> string \<Rightarrow> json" where
  "sendMessageToTarget ident message sessionId =
     JObject [(''id'', JInt ident), (''method'', JString ''Target.sendMessageToTarget''),
              (''params'', JObject [(''message'', JString message), (''sessionId'', JString sessionId)])]"

definition Send_start ::
  "('c, 'p) env \<Rightarrow> string \<Rightarrow> json \<Rightarrow> ('c, 'p) Chrome \<Rightarrow> ((error + chan) \<times> ('c, 'p) Chrome) outcome"
where
  "Send_start E method params c =
     (let ident = id_counter c + 1;
          c1 = c\<lparr>id_counter := ident\<rparr>
      in case json_Marshal E (command (sint ident) method params) of
           Inl err \<Rightarrow> Return (Inl err, c1)
         | Inr b \<Rightarrow>
             (let resc = next_chan c1;
                  c2 = c1\<lparr>next_chan := Suc resc\<rparr>;
                  c3 = c2\<lparr>pending := (pending c2)(sint ident \<mapsto> resc),
                          events := events c2 @ [table_insert (sint ident) resc]\<rparr>
              in case ws c3 of
                   None \<Rightarrow> Panic nil_dereference
                 | Some w \<Rightarrow>
                     (let frame = sendMessageToTarget (sint ident) b (session c3);
                          c4 = c3\<lparr>events := events c3 @ [transport_write frame]\<rparr>
                      in case JSON_Send E w frame of
                           (Some err, w') \<Rightarrow> Return (Inl err, c4\<lparr>ws := Some w'\<rparr>)
                         | (None, w') \<Rightarrow>
                             Return (Inr resc, c4\<lparr>ws := Some w', receiving := insert resc (receiving c4)\<rparr>))))"

definition Send ::
  "('c, 'p) env \<Rightarrow> string \<Rightarrow> json \<Rightarrow> ('c, 'p) Chrome \<Rightarrow> ((RawMessage \<times> error option) \<times> ('c, 'p) Chrome) outcome"
where
  "Send E method params c =
     and_then (Send_start E method params c)
       (\<lambda>(started, c').
          case started of
            Inl err \<Rightarrow> Return ((None, Some err), c')
          | Inr resc \<Rightarrow>
              (case receive_result E resc c' of
                 None \<Rightarrow> Blocked
               | Some (res, c4) \<Rightarrow> Return ((Value res, Err res), c4)))"

section \<open>The binding bridge\<close>

fun error_message :: "error \<Rightarrow> string" where
  "error_message (errors_New s) = s"
| "error_message (fmt_Errorf s) = s"
| "error_message (lib_error s) = s"

text \<open>\<open>jsString\<close> of \<open>readLoop\<close>: the JSON text of a value, the empty string if marshalling fails.\<close>

definition jsString :: "('c, 'p) env \<Rightarrow> json \<Rightarrow> string" where
  "jsString E v = (case json_Marshal E v of Inl err \<Rightarrow> [] | Inr b \<Rightarrow> b)"

definition tabs :: "nat \<Rightarrow> string" where
  "tabs n = replicate n (CHR 0x09)"

definition newline :: string where
  "newline = [CHR 0x0A]"

text \<open>The \<open>fmt.Sprintf\<close> of the completion script: name, sequence number, result text, error text.\<close>

definition completion_script :: "string \<Rightarrow> int \<Rightarrow> string \<Rightarrow> string \<Rightarrow> string" where
  "completion_script name seq result error =
     newline
     @ tabs 7 @ ''if ('' @ error @ '') {'' @ newline
     @ tabs 8 @ ''window['' @ [CHR 0x27] @ name @ [CHR 0x27] @ ''][''
         @ [CHR 0x27] @ ''errors'' @ [CHR 0x27] @ ''].get('' @ decimal seq @ '')('' @ error @ '');'' @ newline
     @ tabs 7 @ ''} else {'' @ newline
     @ tabs 8 @ ''window['' @ [CHR 0x27] @ name @ [CHR 0x27] @ ''][''
         @ [CHR 0x27] @ ''callbacks'' @ [CHR 0x27] @ ''].get('' @ decimal seq @ '')('' @ result @ '');'' @ newline
     @ tabs 7 @ ''}'' @ newline
     @ tabs 7 @ ''window['' @ [CHR 0x27] @ name @ [CHR 0x27] @ ''][''
         @ [CHR 0x27] @ ''callbacks'' @ [CHR 0x27] @ ''].delete('' @ decimal seq @ '');'' @ newline
     @ tabs 7 @ ''window['' @ [CHR 0x27] @ name @ [CHR 0x27] @ ''][''
         @ [CHR 0x27] @ ''errors'' @ [CHR 0x27] @ ''].delete('' @ decimal seq @ '');'' @ newline
     @ tabs 7"

text \<open>
  The result text and the error text the goroutine of a binding call computes: they start as the
  empty string and the two characters \<open>""\<close>; a handler error, or a result that does not marshal,
  replaces the error text by the JSON string of the message; otherwise the result text is the
  JSON of the result.
\<close>

definition binding_texts :: "('c, 'p) env \<Rightarrow> bindingFunc \<Rightarrow> payload \<Rightarrow> string \<times> string" where
  "binding_texts E binding p =
     (case binding (payload_Args p) of
        (r, Some err) \<Rightarrow> ([], jsString E (JString (error_message err)))
      | (r, None) \<Rightarrow>
          (case json_Marshal E r of
             Inl err \<Rightarrow> ([], jsString E (JString (error_message err)))
           | Inr b \<Rightarrow> (b, [CHR 0x22, CHR 0x22])))"

text \<open>The body of the goroutine started for a binding call; the value \<open>Send\<close> returns is dropped.\<close>

definition binding_goroutine ::
  "('c, 'p) env \<Rightarrow> bindingFunc \<Rightarrow> payload \<Rightarrow> int \<Rightarrow> ('c, 'p) Chrome \<Rightarrow> ('c, 'p) Chrome outcome"
where
  "binding_goroutine E binding p contextId c =
     (let (result, error) = binding_texts E binding p;
          expr = completion_script (payload_Name p) (Seq p) result error
      in and_then (Send E ''Runtime.evaluate'' (JObject [(''contextId'', JInt contextId), (''expression'', JString expr)]) c)
           (\<lambda>(r, c'). Return c'))"

section \<open>The dispatcher\<close>

text \<open>
  The outcome a reply is decoded to (the chain of tests that follows the table lookup in
  \<open>readLoop\<close>), in the order of the source.
\<close>

definition reply_result :: "('c, 'p) env \<Rightarrow> received \<Rightarrow> targetMessage \<Rightarrow> result" where
  "reply_result E params res =
     (if Message (Error res) \<noteq> [] then
        \<lparr>Value = None, Err = Some (errors_New (Message (Error res)))\<rparr>
      else if exception_Value (inner_Exception (Exception (Result res))) \<noteq> None then
        \<lparr>Value = None,
         Err = Some (errors_New (case exception_Value (inner_Exception (Exception (Result res))) of
                                   None \<Rightarrow> [] | Some v \<Rightarrow> v))\<rparr>
      else if Type (Result_Result (Result res)) = ''object'' \<and> Subtype (Result_Result (Result res)) = ''error'' then
        \<lparr>Value = None, Err = Some (errors_New (Description (Result_Result (Result res))))\<rparr>
      else if Type (Result_Result (Result res)) \<noteq> [] then
        \<lparr>Value = object_Value (Result_Result (Result res)), Err = None\<rparr>
      else
        \<lparr>Value = template_Result (Unmarshal_template E (received_Message params)), Err = None\<rparr>)"

text \<open>
  The table lookup: take the channel registered under the id of the message and delete the
  entry; with no entry the frame is dropped; otherwise the decoded outcome is sent on the
  channel. The channel is unbuffered: the send completes if a caller receives from the channel,
  and otherwise the dispatcher stays in it for ever (the caller of a \<open>Send\<close> whose write failed
  has returned and never receives).
\<close>

definition deliver_reply ::
  "('c, 'p) env \<Rightarrow> received \<Rightarrow> targetMessage \<Rightarrow> ('c, 'p) Chrome \<Rightarrow> ('c, 'p) Chrome outcome"
where
  "deliver_reply E params res c =
     (let found = pending c (ID res);
          c1 = c\<lparr>pending := (pending c)(ID res := None)\<rparr>
      in case found of
           None \<Rightarrow> Return c1
         | Some resc \<Rightarrow>
             if resc \<in> receiving c1
             then Return (c1\<lparr>delivered := delivered c1 @ [(resc, reply_result E params res)],
                             receiving := receiving c1 - {resc}\<rparr>)
             else Blocked)"

text \<open>
  One iteration of \<open>readLoop\<close> on a frame that was received; the boolean says whether the loop
  goes on. In the first test \<open>&&\<close> binds tighter than \<open>||\<close>, as in Go. The logging branch does
  not \<open>continue\<close>: after the line is logged the frame goes through the table lookup as well.
\<close>

definition readLoop_frame ::
  "('c, 'p) env \<Rightarrow> msg \<Rightarrow> ('c, 'p) Chrome \<Rightarrow> (bool \<times> ('c, 'p) Chrome) outcome"
where
  "readLoop_frame E m c =
     (if msg_Method m = ''Target.receivedMessageFromTarget'' then
        (let params = Unmarshal_received E (msg_Params m)
         in if SessionID params \<noteq> session c then Return (True, c)
            else
              (let res = Unmarshal_targetMessage E (received_Message params)
               in if (ID res = 0 \<and> Method res = ''Runtime.consoleAPICalled'') \<or> Method res = ''Runtime.exceptionThrown''
                  then and_then (deliver_reply E params res (c\<lparr>logged := logged c @ [received_Message params]\<rparr>))
                         (\<lambda>c'. Return (True, c'))
                  else if ID res = 0 \<and> Method res = ''Runtime.bindingCalled'' then
                    (let payload = Unmarshal_payload E (Payload (Params res))
                     in case bindings c (Name (Params res)) of
                          None \<Rightarrow> Return (True, c)
                        | Some binding \<Rightarrow>
                            Return (True, c\<lparr>started := started c
                                       @ [go_binding binding payload (executionContextId (Params res))]\<rparr>))
                  else and_then (deliver_reply E params res c) (\<lambda>c'. Return (True, c'))))
      else if msg_Method m = ''Target.targetDestroyed'' then
        (if Unmarshal_targetId E (msg_Params m) = target c
         then and_then (Kill E c) (\<lambda>(err, c'). Return (False, c'))
         else Return (True, c))
      else Return (True, c))"

text \<open>The loop: it ends when a receive fails or when the active target is destroyed.\<close>

partial_function (option) readLoop :: "('c, 'p) env \<Rightarrow> ('c, 'p) Chrome \<Rightarrow> ('c, 'p) Chrome outcome" where
  "readLoop E c =
     (case ws c of
        None \<Rightarrow> Panic nil_dereference
      | Some w \<Rightarrow>
          (case JSON_Receive E w of
             None \<Rightarrow> Blocked
           | Some (Inl err, w') \<Rightarrow> Return (c\<lparr>ws := Some w'\<rparr>)
           | Some (Inr m, w') \<Rightarrow>
               (case readLoop_frame E m (c\<lparr>ws := Some w'\<rparr>) of
                  None \<Rightarrow> Blocked
                | Some (Inl p) \<Rightarrow> Panic p
                | Some (Inr (continue, c')) \<Rightarrow> if continue then readLoop E c' else Return c')))"

section \<open>The states a client goes through\<close>

text \<open>
  The constructor starts from id 2 and an empty table. From then on the id counter is written by
  \<open>Send\<close> alone, and the table by \<open>Send\<close>, which adds an entry, and by the dispatcher, which
  deletes one. \<open>reachable_in E n c\<close>: the client can be in state \<open>c\<close> after \<open>n\<close> calls of
  \<open>Send\<close>, in any interleaving with frames handled by the dispatcher, with \<open>Kill\<close>, and with
  steps that leave the counter alone and add nothing to the table (every other statement of the
  client, and a dispatcher that has deleted an entry and waits in the channel send).
\<close>

inductive reachable_in :: "('c, 'p) env \<Rightarrow> nat \<Rightarrow> ('c, 'p) Chrome \<Rightarrow> bool" for E where
  constructed: "id_counter c = 2 \<Longrightarrow> pending c = Map.empty \<Longrightarrow> reachable_in E 0 c"
| sent: "reachable_in E n c \<Longrightarrow> Send_start E method params c = Return (r, c') \<Longrightarrow> reachable_in E (Suc n) c'"
| dispatched: "reachable_in E n c \<Longrightarrow> readLoop_frame E m c = Return (continue, c') \<Longrightarrow> reachable_in E n c'"
| killed: "reachable_in E n c \<Longrightarrow> Kill E c = Return (err, c') \<Longrightarrow> reachable_in E n c'"
| other: "reachable_in E n c \<Longrightarrow> id_counter c' = id_counter c \<Longrightarrow> pending c' \<subseteq>\<^sub>m pending c
            \<Longrightarrow> reachable_in E n c'"

section \<open>The page side of a binding\<close>

text \<open>
  The script \<open>Bind\<close> installs replaces \<open>window[name]\<close> by a wrapper that keeps two Maps,
  \<open>callbacks\<close> and \<open>errors\<close>, and a counter \<open>lastSeq\<close> on itself. A call of the wrapper creates
  the Maps if they are missing, takes \<open>(lastSeq || 0) + 1\<close> as sequence number, makes a promise,
  stores its \<open>resolve\<close> under the number in \<open>callbacks\<close> and its \<open>reject\<close> in \<open>errors\<close>, and
  hands name, number and arguments to the bridge. The page below is the part of the document
  that script and the completion script touch.
\<close>

datatype settle = resolve nat | reject nat

record binding_object =
  callbacks :: "(int \<rightharpoonup> settle) option"
  errors :: "(int \<rightharpoonup> settle) option"
  lastSeq :: "int option"

record page =
  bound :: "string \<rightharpoonup> binding_object"
  promises :: nat
  bridge_calls :: "(string \<times> int \<times> string list) list"
  settle_calls :: "(settle \<times> string) list"

datatype js_error = TypeError

definition wrapper_call :: "string \<Rightarrow> string list \<Rightarrow> page \<Rightarrow> js_error + page" where
  "wrapper_call name args pg =
     (case bound pg name of
        None \<Rightarrow> Inl TypeError
      | Some me \<Rightarrow>
          (let cbs = (case callbacks me of None \<Rightarrow> Map.empty | Some m \<Rightarrow> m);
               errs = (case errors me of None \<Rightarrow> Map.empty | Some m \<Rightarrow> m);
               seq = (case lastSeq me of None \<Rightarrow> 0 | Some n \<Rightarrow> n) + 1;
               promise = promises pg
           in Inr (pg\<lparr>bound := (bound pg)(name \<mapsto>
                         \<lparr>callbacks = Some (cbs(seq \<mapsto> resolve promise)),
                          errors = Some (errs(seq \<mapsto> reject promise)),
                          lastSeq = Some seq\<rparr>),
                       promises := Suc promise,
                       bridge_calls := bridge_calls pg @ [(name, seq, args)]\<rparr>)))"

text \<open>
  In \<open>if (e)\<close> the error text \<open>e\<close> is a JSON string literal, and a JavaScript string is truthy
  unless it is empty: the literal is falsy exactly when it is the two characters \<open>""\<close>.
\<close>

definition js_truthy :: "string \<Rightarrow> bool" where
  "js_truthy literal = (literal \<noteq> [CHR 0x22, CHR 0x22])"

text \<open>
  What the completion script does in the page, statement by statement, for a name without quote
  characters: if the error text is truthy, call \<open>errors.get(seq)\<close> on it, otherwise call
  \<open>callbacks.get(seq)\<close> on the result text (with no argument if that text is empty); then delete the
  number from \<open>callbacks\<close> and from \<open>errors\<close>. Reading a property of \<open>undefined\<close> and calling
  \<open>undefined\<close> throw, and the script stops there.
\<close>

definition completion_effect :: "string \<Rightarrow> int \<Rightarrow> string \<Rightarrow> string \<Rightarrow> page \<Rightarrow> js_error + page" where
  "completion_effect name seq result error pg =
     (case bound pg name of
        None \<Rightarrow> Inl TypeError
      | Some me \<Rightarrow>
          (case (if js_truthy error then errors me else callbacks me) of
             None \<Rightarrow> Inl TypeError
           | Some table \<Rightarrow>
               (case table seq of
                  None \<Rightarrow> Inl TypeError
                | Some f \<Rightarrow>
                    (case callbacks me of
                       None \<Rightarrow> Inl TypeError
                     | Some cbs \<Rightarrow>
                         (case errors me of
                            None \<Rightarrow> Inl TypeError
                          | Some errs \<Rightarrow>
                              Inr (pg\<lparr>settle_calls := settle_calls pg
                                          @ [(f, if js_truthy error then error else result)],
                                      bound := (bound pg)(name \<mapsto>
                                          me\<lparr>callbacks := Some (cbs(seq := None)),
                                             errors := Some (errs(seq := None))\<rparr>)\<rparr>))))))"

section \<open>Startup\<close>

text \<open>
  \<open>readUntilMatch\<close>: read lines until one matches; a read error is returned; on a match the rest
  of the stream is discarded by a goroutine of its own.
\<close>

fun readUntilMatch ::
  "('c, 'p) env \<Rightarrow> pipe \<Rightarrow> goroutine list \<Rightarrow> ((error + string \<times> string) \<times> goroutine list) outcome"
where
  "readUntilMatch E (Line line rest) gs =
     (case FindStringSubmatch E line of
        None \<Rightarrow> readUntilMatch E rest gs
      | Some m \<Rightarrow> Return (Inr m, gs @ [go_discard_stderr]))"
| "readUntilMatch E (ReadError err) gs = Return (Inl err, gs)"
| "readUntilMatch E Silent gs = Blocked"

fun contains :: "string list \<Rightarrow> string \<Rightarrow> bool" where
  "contains [] x = False"
| "contains (n # arr) x = (if x = n then True else contains arr x)"

partial_function (option) findTarget_receive ::
  "('c, 'p) env \<Rightarrow> 'c \<Rightarrow> ((string \<times> error option) \<times> 'c) outcome"
where
  "findTarget_receive E w =
     (case JSON_Receive E w of
        None \<Rightarrow> Blocked
      | Some (Inl err, w') \<Rightarrow> Return (([], Some err), w')
      | Some (Inr m, w') \<Rightarrow>
          if msg_Method m = ''Target.targetCreated'' then
            (case Unmarshal_TargetInfo E (msg_Params m) of
               Inl err \<Rightarrow> Return (([], Some err), w')
             | Inr info \<Rightarrow>
                 if TargetInfo_Type info = ''page'' then Return ((TargetInfo_ID info, None), w')
                 else findTarget_receive E w')
          else findTarget_receive E w')"

definition findTarget ::
  "('c, 'p) env \<Rightarrow> ('c, 'p) Chrome \<Rightarrow> ((string \<times> error option) \<times> ('c, 'p) Chrome) outcome"
where
  "findTarget E c =
     (case ws c of
        None \<Rightarrow> Panic nil_dereference
      | Some w \<Rightarrow>
          (let frame = JObject [(''id'', JInt 0), (''method'', JString ''Target.setDiscoverTargets''),
                                (''params'', JObject [(''discover'', JBool True)])];
               c1 = c\<lparr>events := events c @ [transport_write frame]\<rparr>
           in case JSON_Send E w frame of
                (Some err, w') \<Rightarrow> Return (([], Some err), c1\<lparr>ws := Some w'\<rparr>)
              | (None, w') \<Rightarrow>
                  and_then (findTarget_receive E w') (\<lambda>(r, w''). Return (r, c1\<lparr>ws := Some w''\<rparr>))))"

partial_function (option) startSession_receive ::
  "('c, 'p) env \<Rightarrow> 'c \<Rightarrow> ((string \<times> error option) \<times> 'c) outcome"
where
  "startSession_receive E w =
     (case JSON_Receive E w of
        None \<Rightarrow> Blocked
      | Some (Inl err, w') \<Rightarrow> Return (([], Some err), w')
      | Some (Inr m, w') \<Rightarrow>
          if msg_ID m = 1 then
            (case msg_Error m of
               Some e \<Rightarrow> Return (([], Some (errors_New (''Target error: '' @ e))), w')
             | None \<Rightarrow>
                 (case Unmarshal_sessionId E (msg_Result m) of
                    Inl err \<Rightarrow> Return (([], Some err), w')
                  | Inr sessionId \<Rightarrow> Return ((sessionId, None), w')))
          else startSession_receive E w')"

definition startSession ::
  "('c, 'p) env \<Rightarrow> string \<Rightarrow> ('c, 'p) Chrome \<Rightarrow> ((string \<times> error option) \<times> ('c, 'p) Chrome) outcome"
where
  "startSession E targetId c =
     (case ws c of
        None \<Rightarrow> Panic nil_dereference
      | Some w \<Rightarrow>
          (let frame = JObject [(''id'', JInt 1), (''method'', JString ''Target.attachToTarget''),
                                (''params'', JObject [(''targetId'', JString targetId)])];
               c1 = c\<lparr>events := events c @ [transport_write frame]\<rparr>
           in case JSON_Send E w frame of
                (Some err, w') \<Rightarrow> Return (([], Some err), c1\<lparr>ws := Some w'\<rparr>)
              | (None, w') \<Rightarrow>
                  and_then (startSession_receive E w') (\<lambda>(r, w''). Return (r, c1\<lparr>ws := Some w''\<rparr>))))"

definition getWindowForTarget ::
  "('c, 'p) env \<Rightarrow> string \<Rightarrow> ('c, 'p) Chrome
     \<Rightarrow> ((windowTargetMessage \<times> error option) \<times> ('c, 'p) Chrome) outcome"
where
  "getWindowForTarget E targetId c =
     and_then (Send E ''Browser.getWindowForTarget'' (JObject [(''targetId'', JString targetId)]) c)
       (\<lambda>((message, err), c1).
          case err of
            Some e \<Rightarrow> Return ((zero_windowTargetMessage, Some e), c1)
          | None \<Rightarrow> Return (Unmarshal_windowTargetMessage E message, c1))"

text \<open>\<open>c.Cmd.Wait()\<close>, its error dropped: it fills \<open>ProcessState\<close> once the process is gone.\<close>

definition Wait :: "('c, 'p) env \<Rightarrow> ('c, 'p) Chrome \<Rightarrow> ('c, 'p) Chrome outcome" where
  "Wait E c =
     (case Process (Cmd c) of
        None \<Rightarrow> Return c
      | Some p \<Rightarrow>
          (case Cmd_Wait E p of
             None \<Rightarrow> Blocked
           | Some (state, p') \<Rightarrow> Return (c\<lparr>Cmd := \<lparr>Process = Some p', ProcessState = Some state\<rparr>\<rparr>)))"

text \<open>The statement pair \<open>c.Kill(); return nil, err\<close> of the constructor.\<close>

definition kill_and_fail ::
  "('c, 'p) env \<Rightarrow> error \<Rightarrow> ('c, 'p) Chrome \<Rightarrow> (error option \<times> ('c, 'p) Chrome) outcome"
where
  "kill_and_fail E err c = and_then (Kill E c) (\<lambda>(killed, c'). Return (Some err, c'))"

definition enabled_domains :: h where
  "enabled_domains =
     [(''Log.enable'', JNull), (''Network.enable'', JNull), (''Page.enable'', JNull),
      (''Performance.enable'', JNull), (''Runtime.enable'', JNull), (''Security.enable'', JNull),
      (''Target.setAutoAttach'', JObject [(''autoAttach'', JBool True), (''waitForDebuggerOnStart'', JBool False)])]"

fun enable_all ::
  "('c, 'p) env \<Rightarrow> (string \<times> json) list \<Rightarrow> ('c, 'p) Chrome \<Rightarrow> (error option \<times> ('c, 'p) Chrome) outcome"
where
  "enable_all E [] c = Return (None, c)"
| "enable_all E ((method, args) # rest) c =
     and_then (Send E method args c)
       (\<lambda>((v, err), c1).
          case err of
            Some e \<Rightarrow> and_then (Kill E c1) (\<lambda>(killed, c2). and_then (Wait E c2) (\<lambda>c3. Return (Some e, c3)))
          | None \<Rightarrow> enable_all E rest c1)"

text \<open>The struct literal the constructor starts from: the first two ids are used by the handshake.\<close>

definition new_Chrome :: "('c, 'p) Chrome" where
  "new_Chrome =
     \<lparr>Cmd = \<lparr>Process = None, ProcessState = None\<rparr>, ws = None, id_counter = 2,
      target = [], session = [], window = 0, pending = Map.empty, bindings = Map.empty,
      logged = [], printed = [], delivered = [], started = [], next_chan = 0,
      events = [], receiving = {}\<rparr>"

text \<open>
  \<open>NewChromeWithArgs\<close>. The result is the error (\<open>None\<close> for nil) and the struct as the
  constructor left it; where the error is not nil the Go function returns a nil pointer, and the
  struct still tells what happened to the process and the connection.
\<close>

definition NewChromeWithArgs ::
  "('c, 'p) env \<Rightarrow> string \<Rightarrow> string list \<Rightarrow> (error option \<times> ('c, 'p) Chrome) outcome"
where
  "NewChromeWithArgs E chromeBinary args =
     (case StderrPipe E chromeBinary args of
        Some err \<Rightarrow> Return (Some err, new_Chrome)
      | None \<Rightarrow>
     (case Start E chromeBinary args of
        Inl err \<Rightarrow> Return (Some err, new_Chrome)
      | Inr (p, stderr) \<Rightarrow>
     (let c = new_Chrome\<lparr>Cmd := \<lparr>Process = Some p, ProcessState = None\<rparr>\<rparr>
      in and_then (readUntilMatch E stderr (started c))
     (\<lambda>(m, gs).
        let c = c\<lparr>started := gs\<rparr>
        in case m of
             Inl err \<Rightarrow> kill_and_fail E err c
           | Inr (whole, wsURL) \<Rightarrow>
     (case Dial E wsURL of
        Inl err \<Rightarrow> kill_and_fail E err (c\<lparr>ws := None\<rparr>)
      | Inr w \<Rightarrow>
          and_then (findTarget E (c\<lparr>ws := Some w\<rparr>))
     (\<lambda>((targetId, err), c).
        let c = c\<lparr>target := targetId\<rparr>
        in case err of
             Some e \<Rightarrow> kill_and_fail E e c
           | None \<Rightarrow>
          and_then (startSession E (target c) c)
     (\<lambda>((sessionId, err), c).
        let c = c\<lparr>session := sessionId\<rparr>
        in case err of
             Some e \<Rightarrow> kill_and_fail E e c
           | None \<Rightarrow>
          and_then (enable_all E (range_order E enabled_domains) (c\<lparr>started := started c @ [go_readLoop]\<rparr>))
     (\<lambda>(err, c).
        case err of
          Some e \<Rightarrow> Return (Some e, c)
        | None \<Rightarrow>
            if \<not> contains args ''--headless'' then
              and_then (getWindowForTarget E (target c) c)
                (\<lambda>((win, err), c).
                   case err of
                     Some e \<Rightarrow> kill_and_fail E e c
                   | None \<Rightarrow> Return (None, c\<lparr>window := WindowID win\<rparr>))
            else Return (None, c)))))))))"

section \<open>Navigation and window geometry\<close>

text \<open>
  \<open>getNavigationHistory\<close> returns a pointer and an error: \<open>(nil, err)\<close> or \<open>(&h, nil)\<close>. It
  prints the reply before decoding it.
\<close>

definition getNavigationHistory ::
  "('c, 'p) env \<Rightarrow> ('c, 'p) Chrome \<Rightarrow> ((navigationHistory option \<times> error option) \<times> ('c, 'p) Chrome) outcome"
where
  "getNavigationHistory E c =
     and_then (Send E ''Page.getNavigationHistory'' JNull c)
       (\<lambda>((result, err), c1).
          case err of
            Some e \<Rightarrow> Return ((None, Some e), c1)
          | None \<Rightarrow>
              (let c2 = c1\<lparr>printed := printed c1
                            @ [''Navigation history:'' @ newline
                               @ (case result of None \<Rightarrow> [] | Some text \<Rightarrow> text) @ newline]\<rparr>
               in case Unmarshal_navigationHistory E result of
                    Inl e \<Rightarrow> Return ((None, Some e), c2)
                  | Inr history \<Rightarrow> Return ((Some history, None), c2)))"

text \<open>Indexing a slice with a Go \<open>int\<close>: the runtime panics outside \<open>0 \<le> n < len\<close>.\<close>

definition index :: "'a list \<Rightarrow> 64 word \<Rightarrow> panic + 'a" where
  "index xs n =
     (if sint n < 0 \<or> int (length xs) \<le> sint n then Inl index_out_of_range else Inr (xs ! nat (sint n)))"

definition goDelta ::
  "('c, 'p) env \<Rightarrow> 64 word \<Rightarrow> ('c, 'p) Chrome \<Rightarrow> (error option \<times> ('c, 'p) Chrome) outcome"
where
  "goDelta E delta c =
     and_then (getNavigationHistory E c)
       (\<lambda>((found, err), c1).
          case err of
            Some e \<Rightarrow> Return (Some e, c1)
          | None \<Rightarrow>
              (case found of
                 None \<Rightarrow> Panic nil_dereference
               | Some history \<Rightarrow>
                   (let n = CurrentIndex history + delta
                    in if sint n < 0 \<or> int (length (Entries history)) \<le> sint n then
                         Return (Some (fmt_Errorf
                            (''invalid delta '' @ decimal (sint delta) @ '', would navigate to '' @ decimal (sint n)
                             @ '' which is outside of history length of '' @ decimal (int (length (Entries history))))), c1)
                       else
                         (case index (Entries history) n of
                            Inl p \<Rightarrow> Panic p
                          | Inr None \<Rightarrow> Panic nil_dereference
                          | Inr (Some e) \<Rightarrow>
                              and_then (Send E ''Page.navigateToHistoryEntry'' (JObject [(''entryId'', JInt (entry_ID e))]) c1)
                                (\<lambda>((v, err), c2). Return (err, c2))))))"

definition Back :: "('c, 'p) env \<Rightarrow> ('c, 'p) Chrome \<Rightarrow> (error option \<times> ('c, 'p) Chrome) outcome" where
  "Back E c = goDelta E 1 c"

definition Forward :: "('c, 'p) env \<Rightarrow> ('c, 'p) Chrome \<Rightarrow> (error option \<times> ('c, 'p) Chrome) outcome" where
  "Forward E c = goDelta E 1 c"

definition WindowStateNormal :: string where
  "WindowStateNormal = ''normal''"

definition WindowStateMaximized :: string where
  "WindowStateMaximized = ''maximized''"

definition WindowStateMinimized :: string where
  "WindowStateMinimized = ''minimized''"

definition WindowStateFullscreen :: string where
  "WindowStateFullscreen = ''fullscreen''"

text \<open>The JSON of a \<open>Bounds\<close> struct: its five fields under their tags, in the order declared.\<close>

definition Bounds_json :: "Bounds \<Rightarrow> json" where
  "Bounds_json b =
     JObject [(''left'', JInt (Left b)), (''top'', JInt (Top b)), (''width'', JInt (Width b)),
              (''height'', JInt (Height b)), (''windowState'', JString (WindowState b))]"

definition SetBounds ::
  "('c, 'p) env \<Rightarrow> Bounds \<Rightarrow> ('c, 'p) Chrome \<Rightarrow> (error option \<times> ('c, 'p) Chrome) outcome"
where
  "SetBounds E b0 c =
     (let b = (if WindowState b0 = [] then b0\<lparr>WindowState := WindowStateNormal\<rparr> else b0);
          param0 = [(''bounds'', Bounds_json b), (''windowId'', JInt (window c))];
          param = (if WindowState b \<noteq> WindowStateNormal
                   then AList.update ''bounds'' (JObject [(''windowState'', JString (WindowState b))]) param0
                   else param0)
      in and_then (Send E ''Browser.setWindowBounds'' (JObject param) c) (\<lambda>((v, err), c'). Return (err, c')))"

section \<open>A simulated environment\<close>

text \<open>
  Concrete inputs for the theorems below: an environment that behaves like a browser that
  answers nothing. Its websocket keeps the frames written and
  whether it was closed; writing to or closing a closed connection is an error, as it is for a
  closed network connection. Its process counts the kill signals it was sent. A caller blocked in
  \<open>Send\<close> receives the zero result, and the dispatcher has deleted the table entry by then.
\<close>

fun escape :: "string \<Rightarrow> string" where
  "escape [] = []"
| "escape (x # xs) = (if x = CHR 0x22 \<or> x = CHR 0x5C then CHR 0x5C # x # escape xs else x # escape xs)"

definition quote :: "string \<Rightarrow> string" where
  "quote s = [CHR 0x22] @ escape s @ [CHR 0x22]"

fun commas :: "string list \<Rightarrow> string" where
  "commas [] = []"
| "commas [x] = x"
| "commas (x # y # ys) = x @ '','' @ commas (y # ys)"

text \<open>JSON text of a value; in strings only the quote and the backslash are escaped.\<close>

fun render :: "json \<Rightarrow> string" and render_members :: "(string \<times> json) list \<Rightarrow> string list"
  and render_elements :: "json list \<Rightarrow> string list" where
  "render JNull = ''null''"
| "render (JBool b) = (if b then ''true'' else ''false'')"
| "render (JInt i) = decimal i"
| "render (JString s) = quote s"
| "render (JArray xs) = ''['' @ commas (render_elements xs) @ '']''"
| "render (JObject kvs) = ''{'' @ commas (render_members kvs) @ ''}''"
| "render_members [] = []"
| "render_members ((k, v) # kvs) = (quote k @ '':'' @ render v) # render_members kvs"
| "render_elements [] = []"
| "render_elements (x # xs) = render x # render_elements xs"

record wire =
  frames :: "json list"
  closed :: bool

definition closed_error :: error where
  "closed_error = lib_error ''use of closed network connection''"

definition sim_env :: "(wire, nat) env" where
  "sim_env =
     \<lparr>StderrPipe = (\<lambda>binary args. None),
      Start = (\<lambda>binary args. Inr (0, Line (''DevTools listening on ws://127.0.0.1:9222/x'' @ newline) Silent)),
      Process_Kill = (\<lambda>p. (None, Suc p)),
      Cmd_Wait = (\<lambda>p. Some (\<lparr>Exited = True\<rparr>, p)),
      FindStringSubmatch = (\<lambda>line.
         if take 22 line = ''DevTools listening on '' then Some (line, drop 22 (butlast line)) else None),
      Dial = (\<lambda>url. Inr \<lparr>frames = [], closed = False\<rparr>),
      JSON_Send = (\<lambda>w v. if closed w then (Some closed_error, w) else (None, w\<lparr>frames := frames w @ [v]\<rparr>)),
      JSON_Receive = (\<lambda>w. Some (Inl (lib_error ''EOF''), w)),
      ws_Close = (\<lambda>w. if closed w then (Some closed_error, w) else (None, w\<lparr>closed := True\<rparr>)),
      json_Marshal = (\<lambda>v. Inr (render v)),
      Unmarshal_received = (\<lambda>raw. \<lparr>SessionID = [], received_Message = []\<rparr>),
      Unmarshal_targetMessage = (\<lambda>text. zero_targetMessage),
      Unmarshal_template = (\<lambda>text. zero_template),
      Unmarshal_payload = (\<lambda>text. \<lparr>payload_Name = [], Seq = 0, payload_Args = []\<rparr>),
      Unmarshal_targetId = (\<lambda>raw. []),
      Unmarshal_TargetInfo = (\<lambda>raw. Inr \<lparr>TargetInfo_Type = ''page'', TargetInfo_ID = ''T''\<rparr>),
      Unmarshal_sessionId = (\<lambda>raw. Inr ''S''),
      Unmarshal_windowTargetMessage = (\<lambda>raw. (zero_windowTargetMessage, None)),
      Unmarshal_navigationHistory = (\<lambda>raw. Inr \<lparr>CurrentIndex = 0, Entries = []\<rparr>),
      receive_result = (\<lambda>resc c.
         Some (zero_result, c\<lparr>pending := (\<lambda>k. if pending c k = Some resc then None else pending c k),
                              receiving := receiving c - {resc}\<rparr>)),
      range_order = (\<lambda>kvs. kvs)\<rparr>"

text \<open>A client after a successful start: session \<open>S\<close> on target \<open>T\<close>, nothing pending.\<close>

definition sim_chrome :: "(wire, nat) Chrome" where
  "sim_chrome =
     \<lparr>Cmd = \<lparr>Process = Some 0, ProcessState = None\<rparr>,
      ws = Some \<lparr>frames = [], closed = False\<rparr>,
      id_counter = 2, target = ''T'', session = ''S'', window = 0,
      pending = Map.empty, bindings = Map.empty,
      logged = [], printed = [], delivered = [], started = [], next_chan = 0,
      events = [], receiving = {}\<rparr>"

text \<open>The inner commands written to the simulated websocket, oldest first.\<close>

fun frame_message :: "json \<Rightarrow> string" where
  "frame_message (JObject [i, m, (p, JObject [(k, JString message), s])]) = message"
| "frame_message frame = []"

definition sent_messages :: "(wire, 'p) Chrome \<Rightarrow> string list" where
  "sent_messages c = (case ws c of None \<Rightarrow> [] | Some w \<Rightarrow> map frame_message (frames w))"

text \<open>Environments that differ from \<open>sim_env\<close> in one call, and inputs for them.\<close>

definition refusing_env :: "(wire, nat) env" where
  "refusing_env = sim_env\<lparr>Dial := (\<lambda>url. Inl (lib_error ''connection refused''))\<rparr>"

definition three_entries :: navigationHistory where
  "three_entries =
     \<lparr>CurrentIndex = 1, Entries = [Some \<lparr>entry_ID = 10\<rparr>, Some \<lparr>entry_ID = 11\<rparr>, Some \<lparr>entry_ID = 12\<rparr>]\<rparr>"

definition nav_env :: "(wire, nat) env" where
  "nav_env = sim_env\<lparr>Unmarshal_navigationHistory := (\<lambda>raw. Inr three_entries)\<rparr>"

definition maximized :: Bounds where
  "maximized = \<lparr>Left = 10, Top = 20, Width = 800, Height = 600, WindowState = ''maximized''\<rparr>"

definition unstated :: Bounds where
  "unstated = \<lparr>Left = 10, Top = 20, Width = 800, Height = 600, WindowState = []\<rparr>"

text \<open>
  Inner messages and what \<open>json.Unmarshal\<close> makes of them: a reply to request 3 that is an
  object of subtype \<open>error\<close> and carries an exception value, a reply to request 3 with the
  number 42, an \<open>exceptionThrown\<close> message that carries id 7, and a call of the binding
  \<open>add\<close>. The first two are also given as the JSON objects they are.
\<close>

definition thrown_text :: string where
  \<open>thrown_text = ''{"id":3,"result":{"result":{"type":"object","subtype":"error","description":"Error: boom"},"exceptionDetails":{"exception":{"value":"bar"}}}}''\<close>

definition thrown_message :: inner_message where
  \<open>thrown_message =
     \<lparr>id_member = Some 3, method_member = None, params_member = None, error_member = None,
      result_member = Some
        \<lparr>result_result_member = Some \<lparr>Type = ''object'', Subtype = ''error'', Description = ''Error: boom'',
                                        object_Value = None, ObjectID = []\<rparr>,
         exceptionDetails_member = Some \<lparr>exception_value_member = Some ''"bar"''\<rparr>\<rparr>\<rparr>\<close>

definition thrown_reply :: targetMessage where
  \<open>thrown_reply = zero_targetMessage
     \<lparr>ID := 3,
      Result := \<lparr>Result_Result = \<lparr>Type = ''object'', Subtype = ''error'', Description = ''Error: boom'',
                                  object_Value = None, ObjectID = []\<rparr>,
                 Exception = \<lparr>inner_Exception = \<lparr>exception_Value = Some ''"bar"''\<rparr>\<rparr>\<rparr>\<rparr>\<close>

definition number_text :: string where
  \<open>number_text = ''{"id":3,"result":{"result":{"type":"number","value":42}}}''\<close>

definition number_message :: inner_message where
  "number_message =
     \<lparr>id_member = Some 3, method_member = None, params_member = None, error_member = None,
      result_member = Some
        \<lparr>result_result_member = Some \<lparr>Type = ''number'', Subtype = [], Description = [],
                                        object_Value = Some ''42'', ObjectID = []\<rparr>,
         exceptionDetails_member = None\<rparr>\<rparr>"

definition number_reply :: targetMessage where
  "number_reply = zero_targetMessage
     \<lparr>ID := 3,
      Result := \<lparr>Result_Result = \<lparr>Type = ''number'', Subtype = [], Description = [],
                                  object_Value = Some ''42'', ObjectID = []\<rparr>,
                 Exception = \<lparr>inner_Exception = \<lparr>exception_Value = None\<rparr>\<rparr>\<rparr>\<rparr>"

definition exception_event_text :: string where
  \<open>exception_event_text = ''{"id":7,"method":"Runtime.exceptionThrown","params":{}}''\<close>

definition exception_event :: targetMessage where
  "exception_event = zero_targetMessage\<lparr>ID := 7, Method := ''Runtime.exceptionThrown''\<rparr>"

definition add_payload_text :: string where
  \<open>add_payload_text = ''{"name":"add","seq":1,"args":[2,3]}''\<close>

definition add_payload :: payload where
  "add_payload = \<lparr>payload_Name = ''add'', Seq = 1, payload_Args = [Some ''2'', Some ''3'']\<rparr>"

definition binding_event_text :: string where
  "binding_event_text =
     render (JObject [(''method'', JString ''Runtime.bindingCalled''),
                      (''params'', JObject [(''name'', JString ''add''), (''payload'', JString add_payload_text),
                                            (''executionContextId'', JInt 5)])])"

definition binding_event :: targetMessage where
  "binding_event = zero_targetMessage
     \<lparr>Method := ''Runtime.bindingCalled'',
      Params := \<lparr>Name = ''add'', Payload = add_payload_text, executionContextId = 5, Args = []\<rparr>\<rparr>"

text \<open>
  The simulated frames carry the inner message as their parameters, all for session \<open>S\<close>.
\<close>

definition from_target :: "string \<Rightarrow> msg" where
  "from_target text =
     \<lparr>msg_ID = 0, msg_Result = None, msg_Error = None,
      msg_Method = ''Target.receivedMessageFromTarget'', msg_Params = Some text\<rparr>"

definition browser_env :: "(wire, nat) env" where
  "browser_env = sim_env
     \<lparr>Unmarshal_received := (\<lambda>raw.
        case raw of
          None \<Rightarrow> \<lparr>SessionID = [], received_Message = []\<rparr>
        | Some text \<Rightarrow> \<lparr>SessionID = ''S'', received_Message = text\<rparr>),
      Unmarshal_targetMessage := (\<lambda>text.
        if text = thrown_text then thrown_reply
        else if text = number_text then number_reply
        else if text = exception_event_text then exception_event
        else if text = binding_event_text then binding_event
        else zero_targetMessage),
      Unmarshal_payload := (\<lambda>text.
        if text = add_payload_text then add_payload
        else \<lparr>payload_Name = [], Seq = 0, payload_Args = []\<rparr>)\<rparr>"

text \<open>
  The frames of the first two commands of a client, both \<open>Page.enable\<close>, and the client after
  \<open>Send\<close> has written the first: request 3 is in the table and its caller receives from
  channel 0.
\<close>

definition first_frame :: json where
  \<open>first_frame = sendMessageToTarget 3 ''{"id":3,"method":"Page.enable","params":null}'' ''S''\<close>

definition second_frame :: json where
  \<open>second_frame = sendMessageToTarget 4 ''{"id":4,"method":"Page.enable","params":null}'' ''S''\<close>

definition waiting_chrome :: "(wire, nat) Chrome" where
  "waiting_chrome = sim_chrome
     \<lparr>id_counter := 3, pending := [3 \<mapsto> 0], next_chan := 1,
      ws := Some \<lparr>frames = [first_frame], closed = False\<rparr>,
      events := [table_insert 3 0, transport_write first_frame], receiving := {0}\<rparr>"

text \<open>
  Handlers for the binding \<open>add\<close>: one that answers 5, one that fails with a message, and one
  that fails with \<open>errors.New("")\<close>. The page has the wrapper for \<open>add\<close> installed and has not
  called it yet.
\<close>

definition answers_five :: bindingFunc where
  "answers_five args = (JInt 5, None)"

definition fails_with_message :: bindingFunc where
  "fails_with_message args = (JNull, Some (errors_New ''2 arguments expected''))"

definition fails_without_message :: bindingFunc where
  "fails_without_message args = (JNull, Some (errors_New []))"

definition fresh_page :: page where
  "fresh_page =
     \<lparr>bound = [''add'' \<mapsto> \<lparr>callbacks = None, errors = None, lastSeq = None\<rparr>],
      promises = 0, bridge_calls = [], settle_calls = []\<rparr>"

text \<open>
  A page calls \<open>add\<close> and the completion script for the texts a handler produced runs in it:
  the calls of \<open>resolve\<close> and \<open>reject\<close> that were made, and the sequence numbers left in the
  two Maps (\<open>None\<close> if a script threw).
\<close>

definition settled_by :: "('c, 'p) env \<Rightarrow> bindingFunc \<Rightarrow> ((settle \<times> string) list \<times> bool \<times> bool) option" where
  "settled_by E handler =
     (case wrapper_call ''add'' [''2'', ''3''] fresh_page of
        Inl e \<Rightarrow> None
      | Inr pg \<Rightarrow>
          (let (result, error) = binding_texts E handler add_payload
           in case completion_effect (payload_Name add_payload) (Seq add_payload) result error pg of
                Inl e \<Rightarrow> None
              | Inr pg' \<Rightarrow>
                  (case bound pg' ''add'' of
                     None \<Rightarrow> None
                   | Some me \<Rightarrow>
                       Some (settle_calls pg',
                             (case callbacks me of None \<Rightarrow> False | Some m \<Rightarrow> m 1 \<noteq> None),
                             (case errors me of None \<Rightarrow> False | Some m \<Rightarrow> m 1 \<noteq> None)))))"

text \<open>The same client on a connection that is already closed.\<close>

definition closed_chrome :: "(wire, nat) Chrome" where
  "closed_chrome = sim_chrome\<lparr>ws := Some \<lparr>frames = [], closed = True\<rparr>\<rparr>"

text \<open>States the client reaches from \<open>waiting_chrome\<close> and \<open>sim_chrome\<close> in the theorems below.\<close>

definition answered_chrome :: "(wire, nat) Chrome" where
  "answered_chrome = waiting_chrome
     \<lparr>pending := Map.empty, delivered := [(0, \<lparr>Value = Some ''42'', Err = None\<rparr>)], receiving := {}\<rparr>"

definition registered_chrome :: "(wire, nat) Chrome" where
  "registered_chrome = waiting_chrome
     \<lparr>id_counter := 4, next_chan := 2, pending := [3 \<mapsto> 0, 4 \<mapsto> 1],
      ws := Some \<lparr>frames = [first_frame, second_frame], closed = False\<rparr>,
      events := [table_insert 3 0, transport_write first_frame, table_insert 4 1, transport_write second_frame],
      receiving := {0, 1}\<rparr>"

definition killed_chrome :: "(wire, nat) Chrome" where
  "killed_chrome = waiting_chrome
     \<lparr>ws := Some \<lparr>frames = [first_frame], closed = True\<rparr>, Cmd := \<lparr>Process = Some 1, ProcessState = None\<rparr>\<rparr>"

text \<open>
  The client whose first write failed: \<open>Send\<close> has returned the error, request 3 is in the
  table and nobody receives from channel 0.
\<close>

definition stale_chrome :: "(wire, nat) Chrome" where
  "stale_chrome = closed_chrome
     \<lparr>id_counter := 3, pending := [3 \<mapsto> 0], next_chan := 1,
      events := [table_insert 3 0, transport_write first_frame]\<rparr>"

text \<open>
  A client that starts the command \<open>Page.enable\<close> once more, and the client that has started it
  4294967296 times with no reply handled.
\<close>

definition send_once :: "(wire, nat) Chrome \<Rightarrow> (wire, nat) Chrome" where
  "send_once c = (case Send_start sim_env ''Page.enable'' JNull c of Some (Inr (r, c')) \<Rightarrow> c' | _ \<Rightarrow> c)"

definition busy_chrome :: "(wire, nat) Chrome" where
  "busy_chrome = (send_once ^^ 4294967296) sim_chrome"

definition after_history :: "(wire, nat) Chrome" where
  \<open>after_history = sim_chrome
     \<lparr>id_counter := 3, next_chan := 1,
      ws := Some \<lparr>frames = [sendMessageToTarget 3 ''{"id":3,"method":"Page.getNavigationHistory","params":null}'' ''S''],
                  closed = False\<rparr>,
      printed := [''Navigation history:'' @ newline @ newline],
      events := [table_insert 3 0,
                 transport_write (sendMessageToTarget 3 ''{"id":3,"method":"Page.getNavigationHistory","params":null}'' ''S'')]\<rparr>\<close>

text \<open>
  Two more replies to request 3, as JSON objects: the one an uncaught \<open>throw undefined\<close> is
  answered with (exception details without a value, the result \<open>undefined\<close>), and one whose
  error member has an empty message.
\<close>

definition undefined_thrown :: inner_message where
  "undefined_thrown =
     \<lparr>id_member = Some 3, method_member = None, params_member = None, error_member = None,
      result_member = Some
        \<lparr>result_result_member = Some \<lparr>Type = ''undefined'', Subtype = [], Description = [],
                                        object_Value = None, ObjectID = []\<rparr>,
         exceptionDetails_member = Some \<lparr>exception_value_member = None\<rparr>\<rparr>\<rparr>"

definition silent_error :: inner_message where
  "silent_error =
     \<lparr>id_member = Some 3, method_member = None, params_member = None,
      error_member = Some \<lparr>message_member = Some []\<rparr>, result_member = None\<rparr>"

declare digits.simps [simp del]

section \<open>Decoding a reply\<close>

lemma thrown_reply_filled: "thrown_reply = fill_targetMessage thrown_message"
  by (simp add: thrown_reply_def thrown_message_def fill_targetMessage_def zero_targetMessage_def
      zero_typed_Result_def)

lemma number_reply_filled: "number_reply = fill_targetMessage number_message"
  by (simp add: number_reply_def number_message_def fill_targetMessage_def zero_targetMessage_def
      zero_typed_Result_def)

lemma filled_error_message:
  "error_member w = Some e \<Longrightarrow> message_member e = Some s \<Longrightarrow> Message (Error (fill_targetMessage w)) = s"
  by (simp add: fill_targetMessage_def)

lemma filled_no_error: "error_member w = None \<Longrightarrow> Message (Error (fill_targetMessage w)) = []"
  by (simp add: fill_targetMessage_def)

lemma filled_no_details:
  "\<not> has_exceptionDetails w
     \<Longrightarrow> exception_Value (inner_Exception (Exception (Result (fill_targetMessage w)))) = None"
  by (simp add: fill_targetMessage_def has_exceptionDetails_def zero_typed_Result_def split: option.splits)

text \<open>
  C1. A frame for the active session that is not a binding call, whose id has a waiter that
  receives from its channel, is answered on that channel with the decoded outcome, once. The
  inner message is the JSON object \<open>w\<close>. The outcome follows the order of the tests in
  \<open>readLoop\<close>: (1) an error member with a non-empty message becomes an error made of the
  message; without an error member, (2) an exception value in the exception details becomes an
  error made of that value, whatever the result is; (3) else an object of subtype \<open>error\<close>
  becomes an error made of its description; and without exception details, (4) a result with a
  type yields its value, (5) a message with no typed result yields the raw result of the generic
  decoding. Nothing is said of a message whose error member has no message or an empty one, nor
  of a message whose exception details have no value and whose result is not an object of subtype
  \<open>error\<close>.
\<close>

theorem reply_precedence:
  assumes "msg_Method m = ''Target.receivedMessageFromTarget''"
      and "params = Unmarshal_received E (msg_Params m)"
      and "SessionID params = session c"
      and "res = Unmarshal_targetMessage E (received_Message params)"
      and "res = fill_targetMessage w"
      and "ID res \<noteq> 0 \<or> Method res \<noteq> ''Runtime.bindingCalled''"
      and "pending c (ID res) = Some resc"
      and "resc \<in> receiving c"
      and "exc = exception_Value (inner_Exception (Exception (Result res)))"
      and "obj = Result_Result (Result res)"
  shows "map_option (map_sum id (\<lambda>(continue, c'). (continue, delivered c'))) (readLoop_frame E m c)
           = Return (True, delivered c @ [(resc, reply_result E params res)])
     \<and> (\<forall>e s. error_member w = Some e \<and> message_member e = Some s \<and> s \<noteq> [] \<longrightarrow>
          reply_result E params res = \<lparr>Value = None, Err = Some (errors_New s)\<rparr>)
     \<and> (error_member w = None \<longrightarrow>
          (\<forall>v. exc = Some v \<longrightarrow> reply_result E params res = \<lparr>Value = None, Err = Some (errors_New v)\<rparr>))
     \<and> (error_member w = None \<and> exc = None \<and> Type obj = ''object'' \<and> Subtype obj = ''error'' \<longrightarrow>
          reply_result E params res = \<lparr>Value = None, Err = Some (errors_New (Description obj))\<rparr>)
     \<and> (error_member w = None \<and> \<not> has_exceptionDetails w
          \<and> \<not> (Type obj = ''object'' \<and> Subtype obj = ''error'') \<and> Type obj \<noteq> [] \<longrightarrow>
          reply_result E params res = \<lparr>Value = object_Value obj, Err = None\<rparr>)
     \<and> (error_member w = None \<and> \<not> has_exceptionDetails w \<and> Type obj = [] \<longrightarrow>
          reply_result E params res =
            \<lparr>Value = template_Result (Unmarshal_template E (received_Message params)), Err = None\<rparr>)"
proof (intro conjI allI impI)
  show "map_option (map_sum id (\<lambda>(continue, c'). (continue, delivered c'))) (readLoop_frame E m c)
          = Return (True, delivered c @ [(resc, reply_result E params res)])"
    using assms(1-4,6-8) by (auto simp: readLoop_frame_def deliver_reply_def and_then_def Let_def)
next
  fix e s
  assume "error_member w = Some e \<and> message_member e = Some s \<and> s \<noteq> []"
  then have "Message (Error res) = s" and "s \<noteq> []"
    using filled_error_message [of w e s] assms(5) by simp_all
  then show "reply_result E params res = \<lparr>Value = None, Err = Some (errors_New s)\<rparr>"
    by (simp add: reply_result_def)
next
  fix v
  assume "error_member w = None" and "exc = Some v"
  then show "reply_result E params res = \<lparr>Value = None, Err = Some (errors_New v)\<rparr>"
    using filled_no_error [of w] assms(5,9) by (simp add: reply_result_def)
next
  assume "error_member w = None \<and> exc = None \<and> Type obj = ''object'' \<and> Subtype obj = ''error''"
  then show "reply_result E params res = \<lparr>Value = None, Err = Some (errors_New (Description obj))\<rparr>"
    using filled_no_error [of w] assms(5,9,10) by (simp add: reply_result_def)
next
  assume a: "error_member w = None \<and> \<not> has_exceptionDetails w
          \<and> \<not> (Type obj = ''object'' \<and> Subtype obj = ''error'') \<and> Type obj \<noteq> []"
  then have "exc = None"
    using filled_no_details [of w] assms(5,9) by simp
  with a show "reply_result E params res = \<lparr>Value = object_Value obj, Err = None\<rparr>"
    using filled_no_error [of w] assms(5,9,10) by (auto simp: reply_result_def)
next
  assume a: "error_member w = None \<and> \<not> has_exceptionDetails w \<and> Type obj = []"
  then have "exc = None"
    using filled_no_details [of w] assms(5,9) by simp
  with a show "reply_result E params res =
            \<lparr>Value = template_Result (Unmarshal_template E (received_Message params)), Err = None\<rparr>"
    using filled_no_error [of w] assms(5,9,10) by (auto simp: reply_result_def)
qed

text \<open>
  A reply that is an object of subtype \<open>error\<close> with description \<open>Error: boom\<close> and also carries
  exception details with the value \<open>"bar"\<close>, for a waiter that receives: the waiter is sent the
  exception value, not the description.
\<close>

theorem exception_beats_error_subtype:
  \<open>Unmarshal_targetMessage browser_env thrown_text = thrown_reply
   \<and> Message (Error thrown_reply) = []
   \<and> Type (Result_Result (Result thrown_reply)) = ''object''
   \<and> Subtype (Result_Result (Result thrown_reply)) = ''error''
   \<and> Description (Result_Result (Result thrown_reply)) = ''Error: boom''
   \<and> exception_Value (inner_Exception (Exception (Result thrown_reply))) = Some ''"bar"''
   \<and> pending waiting_chrome (ID thrown_reply) = Some 0
   \<and> 0 \<in> receiving waiting_chrome
   \<and> map_option (map_sum id (\<lambda>(continue, c'). (continue, delivered c')))
        (readLoop_frame browser_env (from_target thrown_text) waiting_chrome)
      = Return (True, [(0, \<lparr>Value = None, Err = Some (errors_New ''"bar"'')\<rparr>)])
   \<and> map_option (map_sum id (\<lambda>(continue, c'). (continue, delivered c')))
        (readLoop_frame browser_env (from_target thrown_text) waiting_chrome)
      \<noteq> Return (True, [(0, \<lparr>Value = None, Err = Some (errors_New ''Error: boom'')\<rparr>)])\<close>
  by code_simp

theorem reply_precedence_witness:
  \<open>msg_Method (from_target thrown_text) = ''Target.receivedMessageFromTarget''
   \<and> SessionID (Unmarshal_received browser_env (msg_Params (from_target thrown_text))) = session waiting_chrome
   \<and> thrown_reply = Unmarshal_targetMessage browser_env
        (received_Message (Unmarshal_received browser_env (msg_Params (from_target thrown_text))))
   \<and> thrown_reply = fill_targetMessage thrown_message
   \<and> ID thrown_reply \<noteq> 0
   \<and> pending waiting_chrome (ID thrown_reply) = Some 0
   \<and> 0 \<in> receiving waiting_chrome
   \<and> error_member thrown_message = None
   \<and> exception_Value (inner_Exception (Exception (Result thrown_reply))) = Some ''"bar"''
   \<and> map_option (map_sum id (\<lambda>(continue, c'). (continue, delivered c')))
        (readLoop_frame browser_env (from_target thrown_text) waiting_chrome)
      = Return (True, delivered waiting_chrome @ [(0, \<lparr>Value = None, Err = Some (errors_New ''"bar"'')\<rparr>)])\<close>
proof -
  let ?p = "Unmarshal_received browser_env (msg_Params (from_target thrown_text))"
  have a: "msg_Method (from_target thrown_text) = ''Target.receivedMessageFromTarget''"
    by (simp add: from_target_def)
  have b: "SessionID ?p = session waiting_chrome"
    by code_simp
  have d: "thrown_reply = Unmarshal_targetMessage browser_env (received_Message ?p)"
    by code_simp
  have i: "ID thrown_reply \<noteq> 0"
    by (simp add: thrown_reply_def zero_targetMessage_def)
  then have e: "ID thrown_reply \<noteq> 0 \<or> Method thrown_reply \<noteq> ''Runtime.bindingCalled''"
    by simp
  have f: "pending waiting_chrome (ID thrown_reply) = Some 0"
    by (simp add: thrown_reply_def zero_targetMessage_def waiting_chrome_def)
  have r: "0 \<in> receiving waiting_chrome"
    by (simp add: waiting_chrome_def)
  have g: "error_member thrown_message = None"
    by (simp add: thrown_message_def)
  have h: \<open>exception_Value (inner_Exception (Exception (Result thrown_reply))) = Some ''"bar"''\<close>
    by (simp add: thrown_reply_def zero_targetMessage_def)
  note t = reply_precedence [OF a refl b d thrown_reply_filled e f r refl refl]
  from t g h have v: \<open>reply_result browser_env ?p thrown_reply
      = \<lparr>Value = None, Err = Some (errors_New ''"bar"'')\<rparr>\<close>
    by blast
  from t have fr: "map_option (map_sum id (\<lambda>(continue, c'). (continue, delivered c')))
        (readLoop_frame browser_env (from_target thrown_text) waiting_chrome)
      = Return (True, delivered waiting_chrome @ [(0, reply_result browser_env ?p thrown_reply)])"
    by (rule conjunct1)
  from a b d thrown_reply_filled i f r g h fr [unfolded v] show ?thesis
    by (intro conjI)
qed

text \<open>
  The two kinds of message the statement above leaves out, as \<open>readLoop\<close> decodes them. An
  uncaught \<open>throw undefined\<close> is answered with exception details that have no value and the
  result \<open>undefined\<close>: the waiter is sent no error. An error member with an empty message: the
  waiter is sent no error either.
\<close>

lemma exception_without_value_is_no_error:
  "has_exceptionDetails undefined_thrown
   \<and> reply_result E params (fill_targetMessage undefined_thrown) = \<lparr>Value = None, Err = None\<rparr>"
  by (simp add: reply_result_def fill_targetMessage_def undefined_thrown_def has_exceptionDetails_def)

lemma error_with_empty_message_is_no_error:
  "error_member silent_error \<noteq> None
   \<and> reply_result E params (fill_targetMessage silent_error)
       = \<lparr>Value = template_Result (Unmarshal_template E (received_Message params)), Err = None\<rparr>"
  by (simp add: reply_result_def fill_targetMessage_def silent_error_def zero_typed_Result_def)

section \<open>The table of pending requests\<close>

lemma Send_start_effect:
  assumes "json_Marshal E (command (sint (id_counter c + 1)) method args) = Inr b"
      and "ws c = Some w"
      and "frame = sendMessageToTarget (sint (id_counter c + 1)) b (session c)"
      and "JSON_Send E w frame = (written, w')"
  shows "Send_start E method args c =
           Return (case written of Some err \<Rightarrow> Inl err | None \<Rightarrow> Inr (next_chan c),
                   c\<lparr>id_counter := id_counter c + 1, next_chan := Suc (next_chan c),
                     pending := (pending c)(sint (id_counter c + 1) \<mapsto> next_chan c),
                     events := events c @ [table_insert (sint (id_counter c + 1)) (next_chan c),
                                           transport_write frame],
                     ws := Some w',
                     receiving := (case written of
                                     Some err \<Rightarrow> receiving c
                                   | None \<Rightarrow> insert (next_chan c) (receiving c))\<rparr>)"
  using assms by (simp add: Send_start_def Let_def split: option.splits)

lemma Send_start_order:
  assumes "Send_start E method args c = Return (r, c')"
  shows "case json_Marshal E (command (sint (id_counter c + 1)) method args) of
           Inl err \<Rightarrow> r = Inl err \<and> pending c' = pending c \<and> events c' = events c
         | Inr b \<Rightarrow>
             pending c' = (pending c)(sint (id_counter c + 1) \<mapsto> next_chan c)
             \<and> events c' = events c @ [table_insert (sint (id_counter c + 1)) (next_chan c),
                                         transport_write (sendMessageToTarget (sint (id_counter c + 1)) b (session c))]
             \<and> (\<forall>resc. r = Inr resc \<longrightarrow> resc = next_chan c \<and> resc \<in> receiving c')"
  using assms
  by (auto simp: Send_start_def Let_def split: sum.splits option.splits prod.splits)

lemma Send_start_table:
  assumes "Send_start E method args c = Return (r, c')"
  shows "id_counter c' = id_counter c + 1"
    and "pending c' = pending c \<or> (\<exists>resc. pending c' = (pending c)(sint (id_counter c + 1) \<mapsto> resc))"
  using assms
  by (auto simp: Send_start_def Let_def split: sum.splits option.splits prod.splits)

lemma Kill_keeps_table:
  "Kill E c = Return (err, c') \<Longrightarrow> pending c' = pending c \<and> delivered c' = delivered c
     \<and> receiving c' = receiving c \<and> id_counter c' = id_counter c"
  by (auto simp: Kill_def Let_def split: option.splits prod.splits if_splits)

text \<open>What the dispatcher does with a frame for the active session that is not a binding call.\<close>

lemma readLoop_frame_reply:
  assumes "msg_Method m = ''Target.receivedMessageFromTarget''"
      and "params = Unmarshal_received E (msg_Params m)"
      and "SessionID params = session c"
      and "res = Unmarshal_targetMessage E (received_Message params)"
      and "ID res \<noteq> 0 \<or> Method res \<noteq> ''Runtime.bindingCalled''"
      and "c0 = c\<lparr>logged := (if ID res = 0 \<and> Method res = ''Runtime.consoleAPICalled''
                                  \<or> Method res = ''Runtime.exceptionThrown''
                               then logged c @ [received_Message params] else logged c)\<rparr>"
  shows "readLoop_frame E m c =
           (case pending c (ID res) of
              None \<Rightarrow> Return (True, c0)
            | Some resc \<Rightarrow>
                if resc \<in> receiving c
                then Return (True, c0\<lparr>pending := (pending c)(ID res := None),
                                      delivered := delivered c @ [(resc, reply_result E params res)],
                                      receiving := receiving c - {resc}\<rparr>)
                else Blocked)"
proof (cases "pending c (ID res)")
  case None
  then have "(pending c)(ID res := None) = pending c"
    by (simp add: fun_upd_idem_iff)
  with None assms show ?thesis
    by (auto simp: readLoop_frame_def deliver_reply_def and_then_def Let_def)
next
  case (Some resc)
  with assms show ?thesis
    by (auto simp: readLoop_frame_def deliver_reply_def and_then_def Let_def)
qed

text \<open>Every other frame leaves the table, the channels and the counter alone.\<close>

lemma readLoop_frame_other:
  assumes "readLoop_frame E m c = Return (continue, c')"
      and "\<not> (msg_Method m = ''Target.receivedMessageFromTarget''
               \<and> SessionID (Unmarshal_received E (msg_Params m)) = session c
               \<and> (ID (Unmarshal_targetMessage E (received_Message (Unmarshal_received E (msg_Params m)))) \<noteq> 0
                  \<or> Method (Unmarshal_targetMessage E (received_Message (Unmarshal_received E (msg_Params m))))
                      \<noteq> ''Runtime.bindingCalled''))"
  shows "pending c' = pending c \<and> delivered c' = delivered c \<and> receiving c' = receiving c
         \<and> id_counter c' = id_counter c"
  using assms
  by (auto simp: readLoop_frame_def Let_def and_then_def
      dest!: Kill_keeps_table split: if_splits option.splits sum.splits prod.splits)

lemma readLoop_frame_table:
  assumes "readLoop_frame E m c = Return (continue, c')"
  shows "pending c' \<subseteq>\<^sub>m pending c \<and> id_counter c' = id_counter c"
proof (cases "msg_Method m = ''Target.receivedMessageFromTarget''
               \<and> SessionID (Unmarshal_received E (msg_Params m)) = session c
               \<and> (ID (Unmarshal_targetMessage E (received_Message (Unmarshal_received E (msg_Params m)))) \<noteq> 0
                  \<or> Method (Unmarshal_targetMessage E (received_Message (Unmarshal_received E (msg_Params m))))
                      \<noteq> ''Runtime.bindingCalled'')")
  case True
  then show ?thesis
    using assms readLoop_frame_reply [of m _ E c _ _, OF _ refl _ refl _ refl]
    by (auto simp: map_le_def split: option.splits if_splits)
next
  case False
  with assms show ?thesis
    using readLoop_frame_other [of E m c continue c'] by (simp add: map_le_def)
qed

text \<open>
  The ids. Command number \<open>j\<close> of a connection takes the id \<open>2 + j\<close>, in 32 bits, and the ids
  of the first 4294967296 commands are distinct.
\<close>

lemma of_nat_distinct:
  assumes "1 \<le> j" and "j \<le> n" and "n < 4294967296"
  shows "(of_nat (Suc n) :: 32 word) \<noteq> of_nat j"
proof
  assume "(of_nat (Suc n) :: 32 word) = of_nat j"
  then have e: "take_bit 32 (Suc n) = take_bit 32 j"
    unfolding word_of_nat_eq_iff by simp
  have j: "take_bit 32 j = j"
    using assms by (intro take_bit_nat_eq_self) simp
  show False
  proof (cases "Suc n < 4294967296")
    case True
    then have "take_bit 32 (Suc n) = Suc n"
      by (intro take_bit_nat_eq_self) simp
    with e j assms show False by simp
  next
    case False
    with assms have "Suc n = 4294967296" by simp
    then have "take_bit 32 (Suc n) = 0"
      by (simp add: take_bit_eq_mod)
    with e j assms show False by simp
  qed
qed

lemma reachable_invariant:
  assumes "reachable_in E n c"
  shows "id_counter c = 2 + of_nat n
         \<and> dom (pending c) \<subseteq> (\<lambda>j. sint (2 + of_nat j :: 32 word)) ` {1..n}"
  using assms
proof (induction rule: reachable_in.induct)
  case (constructed c)
  then show ?case by simp
next
  case (sent n c cmd args r c')
  have i: "id_counter c' = id_counter c + 1"
    using sent.hyps(2) by (rule Send_start_table(1))
  have "pending c' = pending c \<or> (\<exists>resc. pending c' = (pending c)(sint (id_counter c + 1) \<mapsto> resc))"
    using sent.hyps(2) by (rule Send_start_table(2))
  then have d: "dom (pending c') \<subseteq> insert (sint (id_counter c + 1)) (dom (pending c))"
    by auto
  have n: "id_counter c + 1 = 2 + of_nat (Suc n)"
    using sent.IH by simp
  have m: "(\<lambda>j. sint (2 + of_nat j :: 32 word)) ` {1..n}
          \<subseteq> (\<lambda>j. sint (2 + of_nat j :: 32 word)) ` {1..Suc n}"
    by (rule image_mono) simp
  have "Suc n \<in> {1..Suc n}" by simp
  then have s: "sint (2 + of_nat (Suc n) :: 32 word) \<in> (\<lambda>j. sint (2 + of_nat j :: 32 word)) ` {1..Suc n}"
    by (rule imageI)
  have o: "dom (pending c) \<subseteq> (\<lambda>j. sint (2 + of_nat j :: 32 word)) ` {1..n}"
    using sent.IH by (rule conjunct2)
  have "dom (pending c') \<subseteq> (\<lambda>j. sint (2 + of_nat j :: 32 word)) ` {1..Suc n}"
    using d m s o unfolding n by blast
  moreover have "id_counter c' = 2 + of_nat (Suc n)"
    using i n by (simp only:)
  ultimately show ?case by (rule conjI [rotated])
next
  case (dispatched n c m continue c')
  have "pending c' \<subseteq>\<^sub>m pending c \<and> id_counter c' = id_counter c"
    using dispatched.hyps(2) by (rule readLoop_frame_table)
  then have "dom (pending c') \<subseteq> dom (pending c)" and "id_counter c' = id_counter c"
    by (simp_all add: map_le_implies_dom_le)
  then show ?case using dispatched.IH by auto
next
  case (killed n c err c')
  then show ?case using Kill_keeps_table [of E c err c'] by simp
next
  case (other n c c')
  then have "dom (pending c') \<subseteq> dom (pending c)"
    by (simp add: map_le_implies_dom_le)
  with other show ?case by auto
qed

lemma reachable_fresh:
  assumes "reachable_in E n c" and "n < 4294967296"
  shows "pending c (sint (id_counter c + 1)) = None"
proof (rule ccontr)
  assume "pending c (sint (id_counter c + 1)) \<noteq> None"
  then have "sint (id_counter c + 1) \<in> dom (pending c)" by auto
  then have "sint (id_counter c + 1) \<in> (\<lambda>j. sint (2 + of_nat j :: 32 word)) ` {1..n}"
    using reachable_invariant [OF assms(1)] by blast
  then obtain j where k: "j \<in> {1..n}" and e: "sint (id_counter c + 1) = sint (2 + of_nat j :: 32 word)"
    by (rule imageE)
  have i: "id_counter c + 1 = 2 + of_nat (Suc n)"
    using reachable_invariant [OF assms(1)] by simp
  have j: "1 \<le> j" "j \<le> n" "sint (2 + of_nat (Suc n) :: 32 word) = sint (2 + of_nat j :: 32 word)"
    using k e unfolding i by simp_all
  from j(3) have "(2 + of_nat (Suc n) :: 32 word) = 2 + of_nat j"
    by (rule signed_word_eqI)
  then have "(of_nat (Suc n) :: 32 word) = of_nat j"
    by simp
  with of_nat_distinct [OF j(1) j(2) assms(2)] show False by simp
qed

text \<open>
  C2, as the code has it. (1) When the first part of \<open>Send\<close> returns, either marshalling failed
  and nothing was registered or written, or the channel was put into the table under the id
  taken and after that the frame was written: the two events were added in this order, whether or
  not the write failed, and on a successful write the caller receives from that channel;
  \<open>Send\<close> returns the error, or waits for the value in the struct that holds the entry. (2) In
  a state the client reaches with fewer than 4294967296 calls of \<open>Send\<close>, the id the next
  \<open>Send\<close> takes is not in the table. (3) On a frame for the active session that is not a binding
  call, the dispatcher looks up the id of the inner message: with no entry the frame is dropped,
  the table, the values sent and the receivers are as before; with an entry whose channel has a
  receiver that entry, and no other, is deleted and one outcome is sent on the channel; with an
  entry whose channel has no receiver the dispatcher does not return. (4) On every other frame
  the dispatcher leaves the table, the values sent and the receivers as they were. (5) So does
  \<open>Kill\<close>: teardown removes no entry.
\<close>

theorem pending_table:
  "(Send_start E method args c = Return (r, c1) \<longrightarrow>
      (case json_Marshal E (command (sint (id_counter c + 1)) method args) of
         Inl err \<Rightarrow> r = Inl err \<and> pending c1 = pending c \<and> events c1 = events c
       | Inr b \<Rightarrow>
           pending c1 = (pending c)(sint (id_counter c + 1) \<mapsto> next_chan c)
           \<and> events c1 = events c @ [table_insert (sint (id_counter c + 1)) (next_chan c),
                                       transport_write (sendMessageToTarget (sint (id_counter c + 1)) b (session c))]
           \<and> (\<forall>resc. r = Inr resc \<longrightarrow> resc = next_chan c \<and> resc \<in> receiving c1))
      \<and> Send E method args c =
           (case r of
              Inl err \<Rightarrow> Return ((None, Some err), c1)
            | Inr resc \<Rightarrow>
                (case receive_result E resc c1 of
                   None \<Rightarrow> Blocked
                 | Some (v, c4) \<Rightarrow> Return ((Value v, Err v), c4))))
   \<and> (reachable_in E n c \<and> n < 4294967296 \<longrightarrow> pending c (sint (id_counter c + 1)) = None)
   \<and> (msg_Method m = ''Target.receivedMessageFromTarget''
      \<and> params = Unmarshal_received E (msg_Params m)
      \<and> SessionID params = session c
      \<and> res = Unmarshal_targetMessage E (received_Message params)
      \<and> (ID res \<noteq> 0 \<or> Method res \<noteq> ''Runtime.bindingCalled'')
      \<and> c0 = c\<lparr>logged := (if ID res = 0 \<and> Method res = ''Runtime.consoleAPICalled''
                                 \<or> Method res = ''Runtime.exceptionThrown''
                              then logged c @ [received_Message params] else logged c)\<rparr>
    \<longrightarrow> readLoop_frame E m c =
           (case pending c (ID res) of
              None \<Rightarrow> Return (True, c0)
            | Some resc \<Rightarrow>
                if resc \<in> receiving c
                then Return (True, c0\<lparr>pending := (pending c)(ID res := None),
                                      delivered := delivered c @ [(resc, reply_result E params res)],
                                      receiving := receiving c - {resc}\<rparr>)
                else Blocked))
   \<and> (readLoop_frame E f c = Return (continue, c2)
      \<and> \<not> (msg_Method f = ''Target.receivedMessageFromTarget''
             \<and> SessionID (Unmarshal_received E (msg_Params f)) = session c
             \<and> (ID (Unmarshal_targetMessage E (received_Message (Unmarshal_received E (msg_Params f)))) \<noteq> 0
                \<or> Method (Unmarshal_targetMessage E (received_Message (Unmarshal_received E (msg_Params f))))
                    \<noteq> ''Runtime.bindingCalled''))
    \<longrightarrow> pending c2 = pending c \<and> delivered c2 = delivered c \<and> receiving c2 = receiving c)
   \<and> (Kill E c = Return (killed, c3)
    \<longrightarrow> pending c3 = pending c \<and> delivered c3 = delivered c \<and> receiving c3 = receiving c)"
proof (intro conjI impI)
  assume a: "Send_start E method args c = Return (r, c1)"
  then show "Send E method args c =
           (case r of
              Inl err \<Rightarrow> Return ((None, Some err), c1)
            | Inr resc \<Rightarrow>
                (case receive_result E resc c1 of
                   None \<Rightarrow> Blocked
                 | Some (v, c4) \<Rightarrow> Return ((Value v, Err v), c4)))"
    by (simp add: Send_def and_then_def split: sum.splits option.splits)
  from a show "case json_Marshal E (command (sint (id_counter c + 1)) method args) of
         Inl err \<Rightarrow> r = Inl err \<and> pending c1 = pending c \<and> events c1 = events c
       | Inr b \<Rightarrow>
           pending c1 = (pending c)(sint (id_counter c + 1) \<mapsto> next_chan c)
           \<and> events c1 = events c @ [table_insert (sint (id_counter c + 1)) (next_chan c),
                                       transport_write (sendMessageToTarget (sint (id_counter c + 1)) b (session c))]
           \<and> (\<forall>resc. r = Inr resc \<longrightarrow> resc = next_chan c \<and> resc \<in> receiving c1)"
    by (rule Send_start_order)
next
  assume "reachable_in E n c \<and> n < 4294967296"
  then show "pending c (sint (id_counter c + 1)) = None"
    using reachable_fresh [of E n c] by blast
next
  assume "msg_Method m = ''Target.receivedMessageFromTarget''
      \<and> params = Unmarshal_received E (msg_Params m)
      \<and> SessionID params = session c
      \<and> res = Unmarshal_targetMessage E (received_Message params)
      \<and> (ID res \<noteq> 0 \<or> Method res \<noteq> ''Runtime.bindingCalled'')
      \<and> c0 = c\<lparr>logged := (if ID res = 0 \<and> Method res = ''Runtime.consoleAPICalled''
                                 \<or> Method res = ''Runtime.exceptionThrown''
                              then logged c @ [received_Message params] else logged c)\<rparr>"
  then show "readLoop_frame E m c =
           (case pending c (ID res) of
              None \<Rightarrow> Return (True, c0)
            | Some resc \<Rightarrow>
                if resc \<in> receiving c
                then Return (True, c0\<lparr>pending := (pending c)(ID res := None),
                                      delivered := delivered c @ [(resc, reply_result E params res)],
                                      receiving := receiving c - {resc}\<rparr>)
                else Blocked)"
    using readLoop_frame_reply [of m params E c res c0] by blast
next
  assume a: "readLoop_frame E f c = Return (continue, c2)
      \<and> \<not> (msg_Method f = ''Target.receivedMessageFromTarget''
             \<and> SessionID (Unmarshal_received E (msg_Params f)) = session c
             \<and> (ID (Unmarshal_targetMessage E (received_Message (Unmarshal_received E (msg_Params f)))) \<noteq> 0
                \<or> Method (Unmarshal_targetMessage E (received_Message (Unmarshal_received E (msg_Params f))))
                    \<noteq> ''Runtime.bindingCalled''))"
  then have "pending c2 = pending c \<and> delivered c2 = delivered c \<and> receiving c2 = receiving c
         \<and> id_counter c2 = id_counter c"
    by (intro readLoop_frame_other [of E f c continue c2]) simp_all
  then show "pending c2 = pending c" and "delivered c2 = delivered c" and "receiving c2 = receiving c"
    by simp_all
next
  assume "Kill E c = Return (killed, c3)"
  then show "pending c3 = pending c" and "delivered c3 = delivered c" and "receiving c3 = receiving c"
    using Kill_keeps_table [of E c killed c3] by simp_all
qed

text \<open>The client that goes on sending \<open>Page.enable\<close> on an open connection, none answered.\<close>

lemma send_once_effect:
  assumes "ws c = Some w" and "\<not> closed w"
  shows "Send_start sim_env ''Page.enable'' JNull c = Return (Inr (next_chan c), send_once c)"
    and "id_counter (send_once c) = id_counter c + 1"
    and "next_chan (send_once c) = Suc (next_chan c)"
    and "pending (send_once c) = (pending c)(sint (id_counter c + 1) \<mapsto> next_chan c)"
    and "receiving (send_once c) = insert (next_chan c) (receiving c)"
    and "\<exists>w'. ws (send_once c) = Some w' \<and> \<not> closed w'"
  using assms by (simp_all add: send_once_def Send_start_def sim_env_def Let_def)

lemma sends_invariant:
  "id_counter ((send_once ^^ n) sim_chrome) = 2 + of_nat n
   \<and> next_chan ((send_once ^^ n) sim_chrome) = n
   \<and> (\<exists>w. ws ((send_once ^^ n) sim_chrome) = Some w \<and> \<not> closed w)
   \<and> reachable_in sim_env n ((send_once ^^ n) sim_chrome)
   \<and> (1 \<le> n \<and> n \<le> 4294967296 \<longrightarrow>
        pending ((send_once ^^ n) sim_chrome) 3 = Some 0 \<and> 0 \<in> receiving ((send_once ^^ n) sim_chrome))"
proof (induction n)
  case 0
  have "reachable_in sim_env 0 sim_chrome"
    by (rule reachable_in.constructed) (simp_all add: sim_chrome_def)
  then show ?case
    by (simp add: sim_chrome_def)
next
  case (Suc n)
  let ?c = "(send_once ^^ n) sim_chrome"
  from Suc.IH obtain w where w: "ws ?c = Some w" "\<not> closed w"
    by blast
  note e = send_once_effect [OF w]
  have i: "id_counter (send_once ?c) = 2 + of_nat (Suc n)"
    using e(2) Suc.IH by simp
  have r: "reachable_in sim_env (Suc n) (send_once ?c)"
    using Suc.IH e(1) reachable_in.sent [of sim_env n ?c] by blast
  have p: "pending (send_once ?c) 3 = Some 0 \<and> 0 \<in> receiving (send_once ?c)"
    if b: "Suc n \<le> 4294967296"
  proof (cases "n = 0")
    case True
    then show ?thesis
      using e(4,5) by (simp add: sim_chrome_def)
  next
    case False
    have "sint (3 + of_nat n :: 32 word) \<noteq> 3"
    proof
      assume "sint (3 + of_nat n :: 32 word) = 3"
      then have "sint (3 + of_nat n :: 32 word) = sint (3 :: 32 word)"
        by simp
      then have "(3 + of_nat n :: 32 word) = 3"
        by (rule signed_word_eqI)
      then have "(of_nat n :: 32 word) = 0"
        by simp
      then have "4294967296 dvd n"
        by (simp add: word_of_nat_eq_0_iff)
      with False b show False
        by (auto dest!: dvd_imp_le)
    qed
    moreover have "id_counter ?c + 1 = 3 + of_nat n"
      using Suc.IH by simp
    ultimately show ?thesis
      using False b Suc.IH e(4,5) by simp
  qed
  from i e(3) e(6) r p Suc.IH show ?case
    by simp
qed

lemma busy_chrome_reached:
  "reachable_in sim_env 4294967296 busy_chrome
   \<and> id_counter busy_chrome = 2 \<and> next_chan busy_chrome = 4294967296
   \<and> pending busy_chrome 3 = Some 0 \<and> 0 \<in> receiving busy_chrome
   \<and> Send_start sim_env ''Page.enable'' JNull busy_chrome = Return (Inr 4294967296, send_once busy_chrome)
   \<and> pending (send_once busy_chrome) 3 = Some 4294967296"
proof -
  note s = sends_invariant [of 4294967296, folded busy_chrome_def]
  from s have i: "id_counter busy_chrome = 2"
    by simp
  from s have n: "next_chan busy_chrome = 4294967296"
    by simp
  from s obtain w where w: "ws busy_chrome = Some w" "\<not> closed w"
    by blast
  note e = send_once_effect [OF w]
  from e(1) n have a: "Send_start sim_env ''Page.enable'' JNull busy_chrome
      = Return (Inr 4294967296, send_once busy_chrome)"
    by simp
  from e(4) i n have b: "pending (send_once busy_chrome) 3 = Some 4294967296"
    by simp
  from s i n a b show ?thesis
    by simp
qed

text \<open>
  Two states in which C2 fails as it is written. Teardown with request 3 pending: \<open>Kill\<close>
  closes the connection and kills the process, and the waiter of request 3 is still in the table;
  nothing was sent on its channel. And the client that has sent 4294967296 commands while the
  caller of request 3 waits on channel 0: the counter is back at 2, the next \<open>Send\<close> takes the
  id 3 again and puts its own channel in the place of the one that waits.
\<close>

theorem teardown_keeps_and_wrap_reuses:
  "pending waiting_chrome 3 = Some 0
   \<and> map_option (map_sum id (\<lambda>(err, c'). (err, map_option closed (ws c'), Process (Cmd c'), pending c' 3, delivered c')))
       (Kill sim_env waiting_chrome)
     = Return (None, Some True, Some 1, Some 0, [])
   \<and> reachable_in sim_env 4294967296 busy_chrome
   \<and> pending busy_chrome 3 = Some 0 \<and> 0 \<in> receiving busy_chrome
   \<and> sint (id_counter busy_chrome + 1) = 3
   \<and> Send_start sim_env ''Page.enable'' JNull busy_chrome = Return (Inr 4294967296, send_once busy_chrome)
   \<and> pending (send_once busy_chrome) 3 = Some 4294967296"
proof -
  have k: "pending waiting_chrome 3 = Some 0
   \<and> map_option (map_sum id (\<lambda>(err, c'). (err, map_option closed (ws c'), Process (Cmd c'), pending c' 3, delivered c')))
       (Kill sim_env waiting_chrome)
     = Return (None, Some True, Some 1, Some 0, [])"
    by code_simp
  have "sint (id_counter busy_chrome + 1) = 3"
    using busy_chrome_reached by simp
  with k busy_chrome_reached show ?thesis
    by simp
qed

lemma decode_number:
  "SessionID (Unmarshal_received browser_env (msg_Params (from_target number_text))) = ''S''
   \<and> number_reply = Unmarshal_targetMessage browser_env
        (received_Message (Unmarshal_received browser_env (msg_Params (from_target number_text))))
   \<and> msg_Method (from_target number_text) = ''Target.receivedMessageFromTarget''"
  by code_simp

lemma number_reply_fields:
  "ID number_reply = 3 \<and> Method number_reply = [] \<and> Message (Error number_reply) = []
   \<and> exception_Value (inner_Exception (Exception (Result number_reply))) = None
   \<and> Type (Result_Result (Result number_reply)) = ''number''
   \<and> object_Value (Result_Result (Result number_reply)) = Some ''42''"
  by (simp add: number_reply_def zero_targetMessage_def)

lemma number_reply_result:
  "reply_result browser_env params number_reply = \<lparr>Value = Some ''42'', Err = None\<rparr>"
  using number_reply_fields by (simp add: reply_result_def)

lemma first_send_eval:
  "Send_start browser_env ''Page.enable'' JNull sim_chrome = Return (Inr 0, waiting_chrome)"
proof -
  have m: \<open>json_Marshal browser_env (command (sint (id_counter sim_chrome + 1)) ''Page.enable'' JNull)
      = Inr ''{"id":3,"method":"Page.enable","params":null}''\<close>
    by code_simp
  have s: \<open>JSON_Send browser_env \<lparr>frames = [], closed = False\<rparr>
        (sendMessageToTarget (sint (id_counter sim_chrome + 1))
           ''{"id":3,"method":"Page.enable","params":null}'' (session sim_chrome))
      = (None, \<lparr>frames = [first_frame], closed = False\<rparr>)\<close>
    by (simp add: browser_env_def sim_env_def sim_chrome_def first_frame_def)
  have w: "ws sim_chrome = Some \<lparr>frames = [], closed = False\<rparr>"
    by (simp add: sim_chrome_def)
  show ?thesis
    using Send_start_effect [OF m w refl s]
    by (simp add: waiting_chrome_def sim_chrome_def first_frame_def)
qed

lemma second_send_eval:
  "Send_start browser_env ''Page.enable'' JNull waiting_chrome = Return (Inr 1, registered_chrome)"
proof -
  have m: \<open>json_Marshal browser_env (command (sint (id_counter waiting_chrome + 1)) ''Page.enable'' JNull)
      = Inr ''{"id":4,"method":"Page.enable","params":null}''\<close>
    by code_simp
  have s: \<open>JSON_Send browser_env \<lparr>frames = [first_frame], closed = False\<rparr>
        (sendMessageToTarget (sint (id_counter waiting_chrome + 1))
           ''{"id":4,"method":"Page.enable","params":null}'' (session waiting_chrome))
      = (None, \<lparr>frames = [first_frame, second_frame], closed = False\<rparr>)\<close>
    by (simp add: browser_env_def sim_env_def waiting_chrome_def sim_chrome_def second_frame_def)
  have w: "ws waiting_chrome = Some \<lparr>frames = [first_frame], closed = False\<rparr>"
    by (simp add: waiting_chrome_def)
  show ?thesis
    using Send_start_effect [OF m w refl s]
    by (simp add: registered_chrome_def waiting_chrome_def sim_chrome_def second_frame_def insert_commute)
qed

lemma failed_send_eval:
  "Send_start browser_env ''Page.enable'' JNull closed_chrome = Return (Inl closed_error, stale_chrome)"
proof -
  have m: \<open>json_Marshal browser_env (command (sint (id_counter closed_chrome + 1)) ''Page.enable'' JNull)
      = Inr ''{"id":3,"method":"Page.enable","params":null}''\<close>
    by code_simp
  have s: \<open>JSON_Send browser_env \<lparr>frames = [], closed = True\<rparr>
        (sendMessageToTarget (sint (id_counter closed_chrome + 1))
           ''{"id":3,"method":"Page.enable","params":null}'' (session closed_chrome))
      = (Some closed_error, \<lparr>frames = [], closed = True\<rparr>)\<close>
    by (simp add: browser_env_def sim_env_def)
  have w: "ws closed_chrome = Some \<lparr>frames = [], closed = True\<rparr>"
    by (simp add: closed_chrome_def)
  show ?thesis
    using Send_start_effect [OF m w refl s]
    by (simp add: stale_chrome_def closed_chrome_def sim_chrome_def first_frame_def)
qed

lemma waiting_chrome_reached: "reachable_in browser_env 1 waiting_chrome"
proof -
  have "reachable_in browser_env 0 sim_chrome"
    by (rule reachable_in.constructed) (simp_all add: sim_chrome_def)
  then have "reachable_in browser_env (Suc 0) waiting_chrome"
    using first_send_eval by (rule reachable_in.sent)
  then show ?thesis by simp
qed

lemma kill_eval: "Kill browser_env waiting_chrome = Return (None, killed_chrome)"
  by (simp add: Kill_def browser_env_def sim_env_def waiting_chrome_def sim_chrome_def killed_chrome_def)

text \<open>A frame for another session.\<close>

lemma foreign_frame_eval:
  "SessionID (Unmarshal_received browser_env (msg_Params (from_target number_text\<lparr>msg_Params := None\<rparr>)))
     \<noteq> session waiting_chrome
   \<and> readLoop_frame browser_env (from_target number_text\<lparr>msg_Params := None\<rparr>) waiting_chrome
       = Return (True, waiting_chrome)"
  by (simp add: readLoop_frame_def from_target_def browser_env_def sim_env_def waiting_chrome_def
      sim_chrome_def)

text \<open>
  With request 3 pending, one \<open>Send\<close> after the constructor: a second \<open>Send\<close> registers id 4
  on channel 1 and then writes its frame; the reply to 3 removes its entry and delivers 42 once;
  the same reply again changes nothing; a frame for another session and \<open>Kill\<close> keep the
  entry. After a \<open>Send\<close> whose write failed nobody receives from channel 0, and the reply to
  3 leaves the dispatcher in the channel send.
\<close>

theorem pending_table_witness:
  \<open>Send_start browser_env ''Page.enable'' JNull waiting_chrome = Return (Inr 1, registered_chrome)
   \<and> json_Marshal browser_env (command (sint (id_counter waiting_chrome + 1)) ''Page.enable'' JNull)
      = Inr ''{"id":4,"method":"Page.enable","params":null}''
   \<and> pending registered_chrome = (pending waiting_chrome)(4 \<mapsto> 1)
   \<and> events registered_chrome = events waiting_chrome @ [table_insert 4 1, transport_write second_frame]
   \<and> 1 \<in> receiving registered_chrome
   \<and> reachable_in browser_env 1 waiting_chrome \<and> (1 :: nat) < 4294967296
   \<and> pending waiting_chrome (sint (id_counter waiting_chrome + 1)) = None
   \<and> pending waiting_chrome 3 = Some 0 \<and> 0 \<in> receiving waiting_chrome
   \<and> readLoop_frame browser_env (from_target number_text) waiting_chrome = Return (True, answered_chrome)
   \<and> pending answered_chrome = (pending waiting_chrome)(3 := None)
   \<and> delivered answered_chrome = delivered waiting_chrome @ [(0, \<lparr>Value = Some ''42'', Err = None\<rparr>)]
   \<and> pending answered_chrome 3 = None
   \<and> readLoop_frame browser_env (from_target number_text) answered_chrome = Return (True, answered_chrome)
   \<and> Send_start browser_env ''Page.enable'' JNull closed_chrome = Return (Inl closed_error, stale_chrome)
   \<and> pending stale_chrome 3 = Some 0 \<and> 0 \<notin> receiving stale_chrome
   \<and> readLoop_frame browser_env (from_target number_text) stale_chrome = Blocked
   \<and> readLoop_frame browser_env (from_target number_text\<lparr>msg_Params := None\<rparr>) waiting_chrome
       = Return (True, waiting_chrome)
   \<and> Kill browser_env waiting_chrome = Return (None, killed_chrome)
   \<and> pending killed_chrome = pending waiting_chrome
   \<and> pending killed_chrome 3 = Some 0\<close>
proof -
  let ?f = "from_target number_text"
  let ?g = "from_target number_text\<lparr>msg_Params := None\<rparr>"
  let ?p = "Unmarshal_received browser_env (msg_Params ?f)"
  have m: \<open>json_Marshal browser_env (command (sint (id_counter waiting_chrome + 1)) ''Page.enable'' JNull)
      = Inr ''{"id":4,"method":"Page.enable","params":null}''\<close>
    by code_simp
  have d: "msg_Method ?f = ''Target.receivedMessageFromTarget''
      \<and> ?p = Unmarshal_received browser_env (msg_Params ?f)
      \<and> SessionID ?p = session waiting_chrome
      \<and> number_reply = Unmarshal_targetMessage browser_env (received_Message ?p)
      \<and> (ID number_reply \<noteq> 0 \<or> Method number_reply \<noteq> ''Runtime.bindingCalled'')"
    using decode_number number_reply_fields by (simp add: waiting_chrome_def sim_chrome_def)
  have l: "c = c\<lparr>logged := (if ID number_reply = 0 \<and> Method number_reply = ''Runtime.consoleAPICalled''
                                 \<or> Method number_reply = ''Runtime.exceptionThrown''
                              then logged c @ [received_Message ?p] else logged c)\<rparr>"
    for c :: "(wire, nat) Chrome"
    using number_reply_fields by simp
  have w3: "pending waiting_chrome 3 = Some 0 \<and> 0 \<in> receiving waiting_chrome"
    by (simp add: waiting_chrome_def)
  have a3: "pending answered_chrome 3 = None"
    by (simp add: answered_chrome_def)
  have s3: "pending stale_chrome 3 = Some 0 \<and> 0 \<notin> receiving stale_chrome"
    by (simp add: stale_chrome_def closed_chrome_def sim_chrome_def)
  note t = pending_table [of browser_env "''Page.enable''" JNull waiting_chrome "Inr 1" registered_chrome 1
      ?f ?p number_reply waiting_chrome ?g True waiting_chrome None killed_chrome]
  note ta = pending_table [of browser_env _ _ answered_chrome _ _ _ ?f ?p number_reply answered_chrome]
  note ts = pending_table [of browser_env _ _ stale_chrome _ _ _ ?f ?p number_reply stale_chrome]
  from t second_send_eval m have send:
    "pending registered_chrome = (pending waiting_chrome)(4 \<mapsto> 1)
     \<and> events registered_chrome = events waiting_chrome @ [table_insert 4 1, transport_write second_frame]
     \<and> 1 \<in> receiving registered_chrome"
    by (simp add: waiting_chrome_def sim_chrome_def second_frame_def)
  have lt: "(1 :: nat) < 4294967296"
    by simp
  from t waiting_chrome_reached lt have fresh: "pending waiting_chrome (sint (id_counter waiting_chrome + 1)) = None"
    by blast
  from t d l [of waiting_chrome] have "readLoop_frame browser_env ?f waiting_chrome =
      (case pending waiting_chrome (ID number_reply) of
         None \<Rightarrow> Return (True, waiting_chrome)
       | Some resc \<Rightarrow>
           if resc \<in> receiving waiting_chrome
           then Return (True, waiting_chrome\<lparr>pending := (pending waiting_chrome)(ID number_reply := None),
                  delivered := delivered waiting_chrome @ [(resc, reply_result browser_env ?p number_reply)],
                  receiving := receiving waiting_chrome - {resc}\<rparr>)
           else Blocked)"
    by blast
  then have answer: "readLoop_frame browser_env ?f waiting_chrome = Return (True, answered_chrome)"
    using number_reply_fields number_reply_result
    by (simp add: answered_chrome_def waiting_chrome_def sim_chrome_def)
  from ta d l [of answered_chrome] have "readLoop_frame browser_env ?f answered_chrome =
      (case pending answered_chrome (ID number_reply) of
         None \<Rightarrow> Return (True, answered_chrome)
       | Some resc \<Rightarrow>
           if resc \<in> receiving answered_chrome
           then Return (True, answered_chrome\<lparr>pending := (pending answered_chrome)(ID number_reply := None),
                  delivered := delivered answered_chrome @ [(resc, reply_result browser_env ?p number_reply)],
                  receiving := receiving answered_chrome - {resc}\<rparr>)
           else Blocked)"
    by (simp add: answered_chrome_def waiting_chrome_def sim_chrome_def)
  then have duplicate: "readLoop_frame browser_env ?f answered_chrome = Return (True, answered_chrome)"
    using number_reply_fields a3 by simp
  from ts d l [of stale_chrome] have "readLoop_frame browser_env ?f stale_chrome =
      (case pending stale_chrome (ID number_reply) of
         None \<Rightarrow> Return (True, stale_chrome)
       | Some resc \<Rightarrow>
           if resc \<in> receiving stale_chrome
           then Return (True, stale_chrome\<lparr>pending := (pending stale_chrome)(ID number_reply := None),
                  delivered := delivered stale_chrome @ [(resc, reply_result browser_env ?p number_reply)],
                  receiving := receiving stale_chrome - {resc}\<rparr>)
           else Blocked)"
    by (simp add: stale_chrome_def closed_chrome_def waiting_chrome_def sim_chrome_def)
  then have stale: "readLoop_frame browser_env ?f stale_chrome = Blocked"
    using number_reply_fields s3 by simp
  from t kill_eval have k: "pending killed_chrome = pending waiting_chrome"
    by blast
  have a: "pending answered_chrome = (pending waiting_chrome)(3 := None)
     \<and> delivered answered_chrome = delivered waiting_chrome @ [(0, \<lparr>Value = Some ''42'', Err = None\<rparr>)]"
    by (simp add: answered_chrome_def waiting_chrome_def sim_chrome_def)
  have k3: "pending killed_chrome 3 = Some 0"
    by (simp add: killed_chrome_def waiting_chrome_def)
  from second_send_eval m send waiting_chrome_reached lt fresh w3 answer a a3 duplicate failed_send_eval s3 stale
    foreign_frame_eval kill_eval k k3
  show ?thesis
    by (intro conjI) simp_all
qed

section \<open>The log sink\<close>

lemma readLoop_frame_logs:
  assumes "msg_Method m = ''Target.receivedMessageFromTarget''"
      and "params = Unmarshal_received E (msg_Params m)"
      and "SessionID params = session c"
      and "res = Unmarshal_targetMessage E (received_Message params)"
      and "readLoop_frame E m c = Return (continue, c')"
  shows "logged c' = (if ID res = 0 \<and> Method res = ''Runtime.consoleAPICalled'' \<or> Method res = ''Runtime.exceptionThrown''
                      then logged c @ [received_Message params] else logged c)"
  using assms
  by (auto simp: readLoop_frame_def deliver_reply_def and_then_def Let_def split: option.splits if_splits)

text \<open>
  C3 says that a message is logged exactly when it is a console or exception event without a
  request id, and never when it carries one. In \<open>readLoop\<close> the test for the id guards the
  console event only: an \<open>exceptionThrown\<close> message that carries id 7 is written to the log.
\<close>

theorem exception_event_with_id_is_logged:
  "Unmarshal_targetMessage browser_env exception_event_text = exception_event
   \<and> ID exception_event = 7 \<and> Method exception_event = ''Runtime.exceptionThrown''
   \<and> map_option (map_sum id (\<lambda>(continue, c'). logged c'))
        (readLoop_frame browser_env (from_target exception_event_text) sim_chrome)
      = Return [exception_event_text]"
  by code_simp

section \<open>Completing a binding call\<close>

text \<open>
  A call of a registered binding starts one goroutine with the handler and touches nothing else:
  the table and the channels are as before.
\<close>

lemma binding_call_starts_goroutine:
  assumes "msg_Method m = ''Target.receivedMessageFromTarget''"
      and "params = Unmarshal_received E (msg_Params m)"
      and "SessionID params = session c"
      and "res = Unmarshal_targetMessage E (received_Message params)"
      and "ID res = 0" and "Method res = ''Runtime.bindingCalled''"
      and "bindings c (Name (Params res)) = Some binding"
  shows "readLoop_frame E m c =
           Return (True, c\<lparr>started := started c
                      @ [go_binding binding (Unmarshal_payload E (Payload (Params res)))
                           (executionContextId (Params res))]\<rparr>)"
  using assms by (simp add: readLoop_frame_def Let_def)

lemma binding_texts_success:
  assumes "binding (payload_Args p) = (r, None)" and "json_Marshal E r = Inr b"
  shows "binding_texts E binding p = (b, [CHR 0x22, CHR 0x22])"
  using assms by (simp add: binding_texts_def)

lemma binding_texts_failure:
  assumes "binding (payload_Args p) = (r, Some err)"
  shows "binding_texts E binding p = ([], jsString E (JString (error_message err)))"
  using assms by (simp add: binding_texts_def)

text \<open>
  In a page that holds both settle functions under the sequence number, the script calls one of
  them, chosen by the truthiness of the error text, and deletes both entries.
\<close>

lemma completion_effect_settles:
  assumes "bound pg name = Some me"
      and "callbacks me = Some cbs" and "cbs seq = Some f"
      and "errors me = Some errs" and "errs seq = Some g"
  shows "completion_effect name seq result error pg =
           Inr (pg\<lparr>settle_calls := settle_calls pg @ [if js_truthy error then (g, error) else (f, result)],
                   bound := (bound pg)(name \<mapsto>
                       me\<lparr>callbacks := Some (cbs(seq := None)), errors := Some (errs(seq := None))\<rparr>)\<rparr>)"
  using assms by (simp add: completion_effect_def)

lemma settled_by_success: "settled_by sim_env answers_five = Some ([(resolve 0, ''5'')], False, False)"
  by code_simp

text \<open>
  C4 says that a failing handler rejects the promise with its error message. The completion
  script tells failure from success by the truthiness of the error text, and the text of an
  empty message is the same \<open>""\<close> the text starts with: a handler that fails with
  \<open>errors.New("")\<close> makes the script call \<open>resolve\<close>, with no argument. A handler that fails with a
  message makes it call \<open>reject\<close> with the message. Both entries are deleted either way.
\<close>

theorem empty_error_message_resolves:
  \<open>fails_without_message (payload_Args add_payload) = (JNull, Some (errors_New []))
   \<and> binding_texts sim_env fails_without_message add_payload = ([], ''""'')
   \<and> settled_by sim_env fails_without_message = Some ([(resolve 0, [])], False, False)
   \<and> binding_texts sim_env fails_with_message add_payload = ([], ''"2 arguments expected"'')
   \<and> settled_by sim_env fails_with_message = Some ([(reject 0, ''"2 arguments expected"'')], False, False)\<close>
  by code_simp

section \<open>Teardown twice\<close>

lemma Kill_close_error:
  assumes "ws c = Some w" and "ws_Close E w = (Some err, w')"
  shows "Kill E c = Return (Some err, c\<lparr>ws := Some w'\<rparr>)"
  using assms by (simp add: Kill_def)

lemma Kill_kills:
  assumes "ws c = Some w" and "ws_Close E w = (None, w')"
      and "Cmd c = \<lparr>Process = Some p, ProcessState = None\<rparr>"
  shows "Kill E c =
           Return (fst (Process_Kill E p),
                   c\<lparr>ws := Some w', Cmd := \<lparr>Process = Some (snd (Process_Kill E p)), ProcessState = None\<rparr>\<rparr>)"
  using assms by (simp add: Kill_def split: prod.splits)

text \<open>
  C5 says that a second \<open>Kill\<close> on a closed connection does not fail and still kills a process
  that has not exited. \<open>Kill\<close> returns the error of \<open>Close\<close> at once. After a first \<open>Kill\<close> that
  closed the connection and killed the process, the second returns the error of closing a closed
  connection. On a client whose connection is closed and whose process was never killed and has
  not exited, \<open>Kill\<close> returns that error and the process is not killed.
\<close>

theorem Kill_twice:
  "and_then (Kill sim_env sim_chrome)
     (\<lambda>(first, c1). and_then (Kill sim_env c1)
        (\<lambda>(second, c2). Return (first, Process (Cmd c1), second, Process (Cmd c2))))
   = Return (None, Some 1, Some closed_error, Some 1)
   \<and> Kill sim_env closed_chrome = Return (Some closed_error, closed_chrome)
   \<and> Process (Cmd closed_chrome) = Some 0 \<and> ProcessState (Cmd closed_chrome) = None"
  by (simp add: Kill_def and_then_def sim_env_def sim_chrome_def closed_chrome_def)

section \<open>Back and Forward\<close>

text \<open>
  C6. \<open>Back\<close> and \<open>Forward\<close> both call \<open>goDelta\<close> with delta 1: they are the same operation
  on every client in every environment.
\<close>

theorem Back_eq_Forward:
  "Back E c = Forward E c \<and> Back E c = goDelta E 1 c \<and> Forward E c = goDelta E 1 c"
  by (simp add: Back_def Forward_def)

lemma nav_eval:
  \<open>map_option (map_sum id (\<lambda>(err, c'). (err, sent_messages c'))) (goDelta nav_env 1 sim_chrome)
  = Return (None, [''{"id":3,"method":"Page.getNavigationHistory","params":null}'',
                   ''{"id":4,"method":"Page.navigateToHistoryEntry","params":{"entryId":12}}''])\<close>
  by code_simp

text \<open>At index 1 of the entries 10, 11, 12 both navigate to entry 12.\<close>

theorem Back_eq_Forward_witness:
  \<open>Back nav_env sim_chrome = Forward nav_env sim_chrome
   \<and> map_option (map_sum id (\<lambda>(err, c'). (err, sent_messages c'))) (Forward nav_env sim_chrome)
  = Return (None, [''{"id":3,"method":"Page.getNavigationHistory","params":null}'',
                   ''{"id":4,"method":"Page.navigateToHistoryEntry","params":{"entryId":12}}''])
   \<and> map_option (map_sum id (\<lambda>(err, c'). (err, sent_messages c'))) (Back nav_env sim_chrome)
  = Return (None, [''{"id":3,"method":"Page.getNavigationHistory","params":null}'',
                   ''{"id":4,"method":"Page.navigateToHistoryEntry","params":{"entryId":12}}''])\<close>
  using Back_eq_Forward [of nav_env sim_chrome] nav_eval by simp

section \<open>A connection that cannot be opened\<close>

text \<open>
  C7. When the process started, the endpoint line was matched and \<open>Dial\<close> fails, the
  constructor returns the error of \<open>Dial\<close>, and before it returns it has called \<open>Process.Kill\<close>
  on the process it started, once; the struct holds no connection.
\<close>

theorem NewChromeWithArgs_connect_error:
  assumes "StderrPipe E chromeBinary args = None"
      and "Start E chromeBinary args = Inr (p, stderr)"
      and "readUntilMatch E stderr [] = Return (Inr (whole, wsURL), gs)"
      and "Dial E wsURL = Inl err"
  shows "NewChromeWithArgs E chromeBinary args =
           Return (Some err,
                   new_Chrome\<lparr>Cmd := \<lparr>Process = Some (snd (Process_Kill E p)), ProcessState = None\<rparr>,
                              started := gs\<rparr>)"
  using assms
  by (simp add: NewChromeWithArgs_def kill_and_fail_def Kill_def and_then_def new_Chrome_def
      split: prod.splits)

theorem NewChromeWithArgs_connect_error_witness:
  "StderrPipe refusing_env ''chrome'' [''--headless''] = None
   \<and> Start refusing_env ''chrome'' [''--headless'']
       = Inr (0, Line (''DevTools listening on ws://127.0.0.1:9222/x'' @ newline) Silent)
   \<and> readUntilMatch refusing_env (Line (''DevTools listening on ws://127.0.0.1:9222/x'' @ newline) Silent) []
       = Return (Inr (''DevTools listening on ws://127.0.0.1:9222/x'' @ newline, ''ws://127.0.0.1:9222/x''),
                 [go_discard_stderr])
   \<and> Dial refusing_env ''ws://127.0.0.1:9222/x'' = Inl (lib_error ''connection refused'')
   \<and> NewChromeWithArgs refusing_env ''chrome'' [''--headless'']
       = Return (Some (lib_error ''connection refused''),
                 new_Chrome\<lparr>Cmd := \<lparr>Process = Some 1, ProcessState = None\<rparr>, started := [go_discard_stderr]\<rparr>)"
proof -
  have a: "StderrPipe refusing_env ''chrome'' [''--headless''] = None"
    by (simp add: refusing_env_def sim_env_def)
  have b: "Start refusing_env ''chrome'' [''--headless'']
       = Inr (0, Line (''DevTools listening on ws://127.0.0.1:9222/x'' @ newline) Silent)"
    by (simp add: refusing_env_def sim_env_def)
  have c: "readUntilMatch refusing_env (Line (''DevTools listening on ws://127.0.0.1:9222/x'' @ newline) Silent) []
       = Return (Inr (''DevTools listening on ws://127.0.0.1:9222/x'' @ newline, ''ws://127.0.0.1:9222/x''),
                 [go_discard_stderr])"
    by (simp add: refusing_env_def sim_env_def newline_def)
  have d: "Dial refusing_env ''ws://127.0.0.1:9222/x'' = Inl (lib_error ''connection refused'')"
    by (simp add: refusing_env_def sim_env_def)
  have k: "snd (Process_Kill refusing_env 0) = 1"
    by (simp add: refusing_env_def sim_env_def)
  from NewChromeWithArgs_connect_error [OF a b c d] a b c d k show ?thesis by simp
qed

section \<open>Window bounds\<close>

text \<open>
  C8. For a window state that is neither empty nor \<open>normal\<close>, \<open>SetBounds\<close> sends
  \<open>Browser.setWindowBounds\<close> with bounds that hold the \<open>windowState\<close> field alone; for the empty
  state it sends the four pixel fields and the state \<open>normal\<close>.
\<close>

theorem SetBounds_payload:
  "(WindowState b \<noteq> [] \<and> WindowState b \<noteq> ''normal'' \<longrightarrow>
      SetBounds E b c =
        and_then (Send E ''Browser.setWindowBounds''
                    (JObject [(''bounds'', JObject [(''windowState'', JString (WindowState b))]),
                              (''windowId'', JInt (window c))]) c)
          (\<lambda>((v, err), c'). Return (err, c')))
   \<and> (WindowState b = [] \<longrightarrow>
      SetBounds E b c =
        and_then (Send E ''Browser.setWindowBounds''
                    (JObject [(''bounds'', JObject [(''left'', JInt (Left b)), (''top'', JInt (Top b)),
                                                  (''width'', JInt (Width b)), (''height'', JInt (Height b)),
                                                  (''windowState'', JString ''normal'')]),
                              (''windowId'', JInt (window c))]) c)
          (\<lambda>((v, err), c'). Return (err, c')))"
  by (simp add: SetBounds_def WindowStateNormal_def Bounds_json_def Let_def)

lemma SetBounds_eval:
  \<open>map_option (map_sum id (\<lambda>(err, c'). (err, sent_messages c'))) (SetBounds sim_env maximized sim_chrome)
    = Return (None, [''{"id":3,"method":"Browser.setWindowBounds","params":{"bounds":{"windowState":"maximized"},"windowId":0}}''])
   \<and> map_option (map_sum id (\<lambda>(err, c'). (err, sent_messages c'))) (SetBounds sim_env unstated sim_chrome)
    = Return (None, [''{"id":3,"method":"Browser.setWindowBounds","params":{"bounds":{"left":10,"top":20,"width":800,"height":600,"windowState":"normal"},"windowId":0}}''])\<close>
  by code_simp

theorem SetBounds_payload_witness:
  \<open>WindowState maximized \<noteq> [] \<and> WindowState maximized \<noteq> ''normal''
   \<and> SetBounds sim_env maximized sim_chrome =
        and_then (Send sim_env ''Browser.setWindowBounds''
                    (JObject [(''bounds'', JObject [(''windowState'', JString ''maximized'')]),
                              (''windowId'', JInt 0)]) sim_chrome)
          (\<lambda>((v, err), c'). Return (err, c'))
   \<and> WindowState unstated = []
   \<and> SetBounds sim_env unstated sim_chrome =
        and_then (Send sim_env ''Browser.setWindowBounds''
                    (JObject [(''bounds'', JObject [(''left'', JInt 10), (''top'', JInt 20),
                                                  (''width'', JInt 800), (''height'', JInt 600),
                                                  (''windowState'', JString ''normal'')]),
                              (''windowId'', JInt 0)]) sim_chrome)
          (\<lambda>((v, err), c'). Return (err, c'))
   \<and> map_option (map_sum id (\<lambda>(err, c'). (err, sent_messages c'))) (SetBounds sim_env maximized sim_chrome)
    = Return (None, [''{"id":3,"method":"Browser.setWindowBounds","params":{"bounds":{"windowState":"maximized"},"windowId":0}}''])
   \<and> map_option (map_sum id (\<lambda>(err, c'). (err, sent_messages c'))) (SetBounds sim_env unstated sim_chrome)
    = Return (None, [''{"id":3,"method":"Browser.setWindowBounds","params":{"bounds":{"left":10,"top":20,"width":800,"height":600,"windowState":"normal"},"windowId":0}}''])\<close>
proof -
  have m: "WindowState maximized \<noteq> [] \<and> WindowState maximized \<noteq> ''normal''"
    by (simp add: maximized_def)
  have u: "WindowState unstated = []"
    by (simp add: unstated_def)
  have f: "WindowState maximized = ''maximized'' \<and> Left unstated = 10 \<and> Top unstated = 20
      \<and> Width unstated = 800 \<and> Height unstated = 600 \<and> window sim_chrome = 0"
    by (simp add: maximized_def unstated_def sim_chrome_def)
  from SetBounds_payload [of maximized sim_env sim_chrome] SetBounds_payload [of unstated sim_env sim_chrome]
    m u f SetBounds_eval
  show ?thesis by simp
qed

section \<open>A failed write leaves the waiter registered\<close>

text \<open>
  C9. When the write to the websocket fails, \<open>Send\<close> returns the write error, and the channel it
  made stays in the table under the id it took: the struct it leaves differs from the one it
  found in the id counter, the channel count, the connection, that table entry, and the two
  events, the assignment into the table and then the write.
\<close>

theorem Send_write_error:
  assumes "json_Marshal E (command (sint (id_counter c + 1)) method params) = Inr b"
      and "ws c = Some w"
      and "JSON_Send E w (sendMessageToTarget (sint (id_counter c + 1)) b (session c)) = (Some err, w')"
  shows "Send E method params c =
           Return ((None, Some err),
                   c\<lparr>id_counter := id_counter c + 1, next_chan := Suc (next_chan c),
                     pending := (pending c)(sint (id_counter c + 1) \<mapsto> next_chan c),
                     events := events c @ [table_insert (sint (id_counter c + 1)) (next_chan c),
                                           transport_write (sendMessageToTarget (sint (id_counter c + 1)) b (session c))],
                     ws := Some w'\<rparr>)"
  using assms by (simp add: Send_def Send_start_def and_then_def Let_def)

theorem Send_write_error_witness:
  \<open>json_Marshal sim_env (command (sint (id_counter closed_chrome + 1)) ''Page.enable'' JNull)
      = Inr ''{"id":3,"method":"Page.enable","params":null}''
   \<and> ws closed_chrome = Some \<lparr>frames = [], closed = True\<rparr>
   \<and> JSON_Send sim_env \<lparr>frames = [], closed = True\<rparr>
        (sendMessageToTarget (sint (id_counter closed_chrome + 1))
           ''{"id":3,"method":"Page.enable","params":null}'' (session closed_chrome))
      = (Some closed_error, \<lparr>frames = [], closed = True\<rparr>)
   \<and> Send sim_env ''Page.enable'' JNull closed_chrome =
       Return ((None, Some closed_error),
          closed_chrome\<lparr>id_counter := id_counter closed_chrome + 1, next_chan := Suc (next_chan closed_chrome),
             pending := (pending closed_chrome)(sint (id_counter closed_chrome + 1) \<mapsto> next_chan closed_chrome),
             events := events closed_chrome
               @ [table_insert (sint (id_counter closed_chrome + 1)) (next_chan closed_chrome),
                  transport_write (sendMessageToTarget (sint (id_counter closed_chrome + 1))
                    ''{"id":3,"method":"Page.enable","params":null}'' (session closed_chrome))],
             ws := Some \<lparr>frames = [], closed = True\<rparr>\<rparr>)
   \<and> sint (id_counter closed_chrome + 1) = 3 \<and> pending closed_chrome 3 = None\<close>
proof -
  have m: \<open>json_Marshal sim_env (command (sint (id_counter closed_chrome + 1)) ''Page.enable'' JNull)
      = Inr ''{"id":3,"method":"Page.enable","params":null}''\<close>
    by code_simp
  have w: "ws closed_chrome = Some \<lparr>frames = [], closed = True\<rparr>"
    by (simp add: closed_chrome_def)
  have s: \<open>JSON_Send sim_env \<lparr>frames = [], closed = True\<rparr>
        (sendMessageToTarget (sint (id_counter closed_chrome + 1))
           ''{"id":3,"method":"Page.enable","params":null}'' (session closed_chrome))
      = (Some closed_error, \<lparr>frames = [], closed = True\<rparr>)\<close>
    by (simp add: sim_env_def)
  have i: "sint (id_counter closed_chrome + 1) = 3 \<and> pending closed_chrome 3 = None"
    by (simp add: closed_chrome_def sim_chrome_def)
  from Send_write_error [OF m w s] m w s i show ?thesis by simp
qed

section \<open>Navigating by a delta\<close>

lemma Send_panic: "Send E method params c = Panic x \<Longrightarrow> x = nil_dereference"
  by (auto simp: Send_def Send_start_def and_then_def Let_def split: sum.splits option.splits prod.splits)

lemma getNavigationHistory_panic: "getNavigationHistory E c = Panic x \<Longrightarrow> x = nil_dereference"
  by (auto simp: getNavigationHistory_def and_then_def Let_def dest: Send_panic split: sum.splits option.splits prod.splits)

lemma goDelta_panic: "goDelta E delta c = Panic x \<Longrightarrow> x = nil_dereference"
  by (auto simp: goDelta_def and_then_def index_def Let_def dest: Send_panic getNavigationHistory_panic
      split: sum.splits option.splits prod.splits if_splits)

text \<open>
  Where one of the two summands is not negative, a sum that is out of range as an integer is out
  of range as a 64-bit sum too: if the addition wraps, the result is negative.
\<close>

lemma sint_add_wrapped:
  fixes a b :: "64 word"
  assumes ab: "0 \<le> sint a \<or> 0 \<le> sint b"
      and out: "sint a + sint b < 0 \<or> n \<le> sint a + sint b"
  shows "sint (a + b) < 0 \<or> n \<le> sint (a + b)"
proof -
  have ra: "- 9223372036854775808 \<le> sint a" "sint a < 9223372036854775808"
    using sint_ge [of a] sint_lt [of a] by simp_all
  have rb: "- 9223372036854775808 \<le> sint b" "sint b < 9223372036854775808"
    using sint_ge [of b] sint_lt [of b] by simp_all
  have s: "sint (a + b) = signed_take_bit 63 (sint a + sint b)"
    by (simp add: sint_word_ariths)
  show ?thesis
  proof (cases "sint a + sint b < 9223372036854775808")
    case True
    with ab ra rb have "signed_take_bit 63 (sint a + sint b) = sint a + sint b"
      by (intro signed_take_bit_int_eq_self) auto
    with s out show ?thesis by simp
  next
    case False
    then have "signed_take_bit 63 (sint a + sint b) \<le> sint a + sint b - 2 ^ Suc 63"
      by (intro signed_take_bit_int_less_eq) simp
    then have "sint (a + b) \<le> sint a + sint b - 18446744073709551616"
      using s by simp
    with ra rb show ?thesis by linarith
  qed
qed

lemma goDelta_rejects:
  assumes "getNavigationHistory E c = Return ((Some history, None), c1)"
      and "sint (CurrentIndex history + delta) < 0
           \<or> int (length (Entries history)) \<le> sint (CurrentIndex history + delta)"
  shows "goDelta E delta c =
           Return (Some (fmt_Errorf
              (''invalid delta '' @ decimal (sint delta) @ '', would navigate to ''
               @ decimal (sint (CurrentIndex history + delta))
               @ '' which is outside of history length of '' @ decimal (int (length (Entries history))))), c1)"
  using assms by (simp add: goDelta_def and_then_def Let_def)

text \<open>
  C10. \<open>goDelta\<close> never indexes the entries out of bounds: it never panics with an index out of
  range. When the history was fetched and the index plus the delta is outside
  \<open>0 \<le> n < len(Entries)\<close>, it returns the \<open>invalid delta\<close> error and the client is as fetching the
  history left it: nothing more was sent. The sum is the sum \<open>goDelta\<close> computes, a 64-bit
  addition; where the index or the delta is not negative (the delta of \<open>Back\<close> and \<open>Forward\<close> is
  1) the same holds for the sum as an integer.
\<close>

theorem goDelta_within_bounds:
  "goDelta E delta c \<noteq> Panic index_out_of_range
   \<and> (getNavigationHistory E c = Return ((Some history, None), c1)
        \<and> (sint (CurrentIndex history + delta) < 0
             \<or> int (length (Entries history)) \<le> sint (CurrentIndex history + delta)
             \<or> (0 \<le> sint (CurrentIndex history) \<or> 0 \<le> sint delta)
                \<and> (sint (CurrentIndex history) + sint delta < 0
                     \<or> int (length (Entries history)) \<le> sint (CurrentIndex history) + sint delta))
      \<longrightarrow> goDelta E delta c =
           Return (Some (fmt_Errorf
              (''invalid delta '' @ decimal (sint delta) @ '', would navigate to ''
               @ decimal (sint (CurrentIndex history + delta))
               @ '' which is outside of history length of '' @ decimal (int (length (Entries history))))), c1))"
proof (intro conjI impI)
  show "goDelta E delta c \<noteq> Panic index_out_of_range"
    using goDelta_panic [of E delta c index_out_of_range] by auto
next
  assume a: "getNavigationHistory E c = Return ((Some history, None), c1)
        \<and> (sint (CurrentIndex history + delta) < 0
             \<or> int (length (Entries history)) \<le> sint (CurrentIndex history + delta)
             \<or> (0 \<le> sint (CurrentIndex history) \<or> 0 \<le> sint delta)
                \<and> (sint (CurrentIndex history) + sint delta < 0
                     \<or> int (length (Entries history)) \<le> sint (CurrentIndex history) + sint delta))"
  then have "sint (CurrentIndex history + delta) < 0
             \<or> int (length (Entries history)) \<le> sint (CurrentIndex history + delta)"
    using sint_add_wrapped [of "CurrentIndex history" delta "int (length (Entries history))"] by blast
  with a show "goDelta E delta c =
           Return (Some (fmt_Errorf
              (''invalid delta '' @ decimal (sint delta) @ '', would navigate to ''
               @ decimal (sint (CurrentIndex history + delta))
               @ '' which is outside of history length of '' @ decimal (int (length (Entries history))))), c1)"
    by (intro goDelta_rejects) auto
qed

lemma history_eval:
  "getNavigationHistory nav_env sim_chrome = Return ((Some three_entries, None), after_history)"
  apply (simp add: getNavigationHistory_def Send_def Send_start_def and_then_def Let_def nav_env_def sim_env_def sim_chrome_def
      after_history_def zero_result_def command_def)
  apply (simp add: fun_eq_iff quote_def decimal_def digits.simps)
  apply code_simp
  done

lemma delta_texts:
  "decimal (sint (2 :: 64 word)) = ''2''
   \<and> decimal (sint (CurrentIndex three_entries + 2)) = ''3''
   \<and> decimal (int (length (Entries three_entries))) = ''3''
   \<and> decimal (sint (9223372036854775807 :: 64 word)) = ''9223372036854775807''
   \<and> decimal (sint (CurrentIndex three_entries + 9223372036854775807)) = ''-9223372036854775808''"
  apply (simp add: decimal_def digits.simps three_entries_def)
  apply code_simp
  done

text \<open>
  At index 1 of three entries: delta 2 gives 3, which is not below the length; the largest delta
  wraps to the smallest integer. Both are refused, and only the history request was sent.
\<close>

theorem goDelta_within_bounds_witness:
  "getNavigationHistory nav_env sim_chrome = Return ((Some three_entries, None), after_history)
   \<and> int (length (Entries three_entries)) \<le> sint (CurrentIndex three_entries + 2)
   \<and> goDelta nav_env 2 sim_chrome =
       Return (Some (fmt_Errorf ''invalid delta 2, would navigate to 3 which is outside of history length of 3''),
               after_history)
   \<and> goDelta nav_env 2 sim_chrome \<noteq> Panic index_out_of_range
   \<and> sint (CurrentIndex three_entries + 9223372036854775807) < 0
   \<and> goDelta nav_env 9223372036854775807 sim_chrome =
       Return (Some (fmt_Errorf (''invalid delta 9223372036854775807, would navigate to -9223372036854775808''
                                 @ '' which is outside of history length of 3'')),
               after_history)
   \<and> length (sent_messages after_history) = 1"
proof -
  have a: "int (length (Entries three_entries)) \<le> sint (CurrentIndex three_entries + 2)"
    by (simp add: three_entries_def)
  have b: "sint (CurrentIndex three_entries + 9223372036854775807) < 0"
    by (simp add: three_entries_def)
  have n: "length (sent_messages after_history) = 1"
    by (simp add: sent_messages_def after_history_def sim_chrome_def)
  note t2 = goDelta_within_bounds [of nav_env 2 sim_chrome three_entries after_history]
  note tm = goDelta_within_bounds [of nav_env 9223372036854775807 sim_chrome three_entries after_history]
  from t2 history_eval a have r2: "goDelta nav_env 2 sim_chrome =
       Return (Some (fmt_Errorf
              (''invalid delta '' @ decimal (sint (2 :: 64 word)) @ '', would navigate to ''
               @ decimal (sint (CurrentIndex three_entries + 2))
               @ '' which is outside of history length of '' @ decimal (int (length (Entries three_entries))))),
               after_history)"
    by blast
  from tm history_eval b have rm: "goDelta nav_env 9223372036854775807 sim_chrome =
       Return (Some (fmt_Errorf
              (''invalid delta '' @ decimal (sint (9223372036854775807 :: 64 word)) @ '', would navigate to ''
               @ decimal (sint (CurrentIndex three_entries + 9223372036854775807))
               @ '' which is outside of history length of '' @ decimal (int (length (Entries three_entries))))),
               after_history)"
    by blast
  from t2 have p: "goDelta nav_env 2 sim_chrome \<noteq> Panic index_out_of_range"
    by (rule conjunct1)
  from history_eval a r2 p b rm n delta_texts show ?thesis
    by simp
qed

end
